theory Spec2Isabelle
  imports Main "HOL-Library.Sublist" "HOL-Library.AList"
begin

section \<open>Errors\<close>

text \<open>
  Go errors. \<open>Err\<close> is an error made by \<open>errors.New\<close> or coming out of a
  collaborator; \<open>Wrapped msg e\<close> is \<open>fmt.Errorf("msg: %w", e)\<close>; \<open>Status c msg\<close> is the
  gRPC status error \<open>status.Error(c, msg)\<close>, and \<open>Statusf c msg e\<close> is
  \<open>status.Errorf(c, "msg: %v", e)\<close>. \<open>Sentinel v\<close> is the value of the package-level
  error variable \<open>v\<close>, such as \<open>peers.ErrNodeNotFound\<close>: Go compares errors by identity
  (\<open>err != peers.ErrNodeNotFound\<close>), so a sentinel is equal to itself only, and an error
  made elsewhere with the same message is another error.
\<close>

datatype code = FailedPrecondition | InvalidArgument | Internal

datatype error =
  Err string | Wrapped string error | Status code string | Statusf code string error
| Sentinel string

fun status_code :: "error \<Rightarrow> code option" where
  "status_code (Status c msg) = Some c"
| "status_code (Statusf c msg e) = Some c"
| "status_code (Err msg) = None"
| "status_code (Wrapped msg e) = None"
| "status_code (Sentinel v) = None"

section \<open>Mesh storage and the networking database (pkg/meshdb/networking)\<close>

text \<open>
  Go maps are association lists here: the order of the list is the order in which a
  \<open>range\<close> loop happens to visit the keys, lookups go through \<open>map_of\<close>.
\<close>

record Route =
  Name :: string
  Node :: string
  DestinationCidrs :: "string list"

record MeshNode =
  Id :: string
  PrivateIpv4 :: string
  PrivateIpv6 :: string

record NetworkAction =
  SrcNode :: string
  SrcCidr :: string
  DstNode :: string
  DstCidr :: string

type_synonym 'e Row = "(string \<times> 'e) list"
type_synonym 'e AdjacencyMap = "(string \<times> 'e Row) list"

text \<open>
  The collaborators of the \<open>networking\<close> struct that are not part of networking.go,
  taken as parameters:
  \<^item> \<open>storage\<close>: the content of the \<open>MeshStorage\<close> (\<open>Inl\<close>: the store fails every scan);
  \<^item> \<open>RegistryPrefix\<close>: the constant \<open>storage.RegistryPrefix\<close>;
  \<^item> \<open>unmarshal_route\<close>, \<open>unmarshal_acl\<close>: \<open>protojson.Unmarshal\<close> at the two types;
  \<^item> \<open>Get\<close>, \<open>BuildAdjacencyMap\<close>: the \<open>GraphResolver\<close> and
    \<open>peergraph.BuildAdjacencyMap(resolver.Graph())\<close>;
  \<^item> \<open>Expand\<close>, \<open>AllowNodesToCommunicate\<close>, \<open>Accept\<close>: the methods of \<open>ACLs\<close>;
  \<^item> \<open>ParsePrefix\<close>: \<open>netip.ParsePrefix\<close>, giving \<open>prefix.Addr().Is4()\<close> of the prefix.
\<close>

record ('acl, 'e) networking =
  storage :: "error + (string \<times> string) list"
  RegistryPrefix :: string
  unmarshal_route :: "string \<Rightarrow> error + Route"
  unmarshal_acl :: "string \<Rightarrow> error + 'acl"
  Get :: "string \<Rightarrow> error + MeshNode"
  BuildAdjacencyMap :: "error + 'e AdjacencyMap"
  Expand :: "'acl list \<Rightarrow> error + 'acl list"
  AllowNodesToCommunicate :: "'acl list \<Rightarrow> MeshNode \<Rightarrow> MeshNode \<Rightarrow> bool"
  Accept :: "'acl list \<Rightarrow> NetworkAction \<Rightarrow> bool"
  ParsePrefix :: "string \<Rightarrow> error + bool"

definition NetworkACLsPrefix :: "('acl, 'e) networking \<Rightarrow> string" where
  "NetworkACLsPrefix n = RegistryPrefix n @ ''network-acls''"

definition RoutesPrefix :: "('acl, 'e) networking \<Rightarrow> string" where
  "RoutesPrefix n = RegistryPrefix n @ ''routes''"

text \<open>
  Modelled from the spec: \<open>MeshStorage.IterPrefix(prefix, fn)\<close>, whose implementations
  are not among the source files. The spec's store is a key-value store with prefix
  iteration: the callback runs on every stored pair whose key starts with the prefix, and
  the first error (of the store or of the callback) ends the scan.
\<close>

fun iter_entries ::
  "(string \<Rightarrow> string \<Rightarrow> 'a \<Rightarrow> error + 'a) \<Rightarrow> (string \<times> string) list \<Rightarrow> 'a \<Rightarrow> error + 'a" where
  "iter_entries f [] out = Inr out"
| "iter_entries f ((k, v) # kvs) out =
     (case f k v out of Inl e \<Rightarrow> Inl e | Inr out' \<Rightarrow> iter_entries f kvs out')"

definition IterPrefix ::
  "('acl, 'e) networking \<Rightarrow> string \<Rightarrow> (string \<Rightarrow> string \<Rightarrow> 'a \<Rightarrow> error + 'a) \<Rightarrow> 'a \<Rightarrow> error + 'a" where
  "IterPrefix n p f out =
     (case storage n of
        Inl e \<Rightarrow> Inl e
      | Inr kvs \<Rightarrow> iter_entries f (filter (\<lambda>(k, v). prefix p k) kvs) out)"

definition ListNetworkACLs :: "('acl, 'e) networking \<Rightarrow> error + 'acl list" where
  "ListNetworkACLs n =
     IterPrefix n (NetworkACLsPrefix n)
       (\<lambda>key val out.
          if key = NetworkACLsPrefix n then Inr out
          else (case unmarshal_acl n val of
                  Inl e \<Rightarrow> Inl (Wrapped ''unmarshal network acl'' e)
                | Inr acl \<Rightarrow> Inr (out @ [acl])))
       []"

definition ListRoutes :: "('acl, 'e) networking \<Rightarrow> error + Route list" where
  "ListRoutes n =
     IterPrefix n (RoutesPrefix n)
       (\<lambda>key val out.
          if key = RoutesPrefix n then Inr out
          else (case unmarshal_route n val of
                  Inl e \<Rightarrow> Inl (Wrapped ''unmarshal network route'' e)
                | Inr route \<Rightarrow> Inr (out @ [route])))
       []"

definition GetRoutesByNode :: "('acl, 'e) networking \<Rightarrow> string \<Rightarrow> error + Route list" where
  "GetRoutesByNode n nodeName =
     (case ListRoutes n of
        Inl e \<Rightarrow> Inl (Wrapped ''list network routes'' e)
      | Inr routes \<Rightarrow> Inr (filter (\<lambda>r. Node r = nodeName) routes))"

text \<open>
  \<open>GetRoutesByCIDR\<close>: the inner loop appends the route at the first destination that
  \<open>strings.HasPrefix(destination, cidr)\<close> holds of, and breaks.
\<close>

fun has_destination :: "string \<Rightarrow> string list \<Rightarrow> bool" where
  "has_destination cidr [] = False"
| "has_destination cidr (destination # ds) =
     (if prefix cidr destination then True else has_destination cidr ds)"

fun routes_by_cidr :: "string \<Rightarrow> Route list \<Rightarrow> Route list \<Rightarrow> Route list" where
  "routes_by_cidr cidr [] out = out"
| "routes_by_cidr cidr (r # routes) out =
     routes_by_cidr cidr routes
       (if has_destination cidr (DestinationCidrs r) then out @ [r] else out)"

definition GetRoutesByCIDR :: "('acl, 'e) networking \<Rightarrow> string \<Rightarrow> error + Route list" where
  "GetRoutesByCIDR n cidr =
     (case ListRoutes n of
        Inl e \<Rightarrow> Inl (Wrapped ''list network routes'' e)
      | Inr routes \<Rightarrow> Inr (routes_by_cidr cidr routes []))"

subsection \<open>FilterGraph\<close>

text \<open>
  The state of \<open>FilterGraph\<close>'s two loops. \<open>filtered[thisNode.Id] = fullMap[thisNode.Id]\<close>
  copies a reference: the observer's row of \<open>filtered\<close> and of \<open>fullMap\<close> are one Go map
  object, so \<open>delete(filtered[thisNode.Id], id)\<close> also removes the edge from
  \<open>fullMap[thisNode.Id]\<close>, which the second loop reads. \<open>shared\<close> says that the two rows
  are still the same object; it stops being so when \<open>filtered[node.GetId()] = make(...)\<close>
  replaces the observer's row of \<open>filtered\<close>.
\<close>

record 'e filter_state =
  fullMap :: "'e AdjacencyMap"
  filtered :: "'e AdjacencyMap"
  shared :: bool

text \<open>\<open>m[k]\<close> on a map of maps: the nil map (no entries) when the key is missing.\<close>

definition row_of :: "'e AdjacencyMap \<Rightarrow> string \<Rightarrow> 'e Row" where
  "row_of m k = (case map_of m k of None \<Rightarrow> [] | Some row \<Rightarrow> row)"

text \<open>\<open>delete(filtered[thisNode.Id], id)\<close>\<close>

definition delete_edge :: "string \<Rightarrow> string \<Rightarrow> 'e filter_state \<Rightarrow> 'e filter_state" where
  "delete_edge this k st =
     st\<lparr>filtered := AList.map_entry this (AList.delete k) (filtered st),
        fullMap := (if shared st then AList.map_entry this (AList.delete k) (fullMap st)
                    else fullMap st)\<rparr>"

text \<open>\<open>filtered[node.GetId()] = make(map[string]peergraph.Edge)\<close>\<close>

definition make_row :: "string \<Rightarrow> string \<Rightarrow> 'e filter_state \<Rightarrow> 'e filter_state" where
  "make_row this k st =
     st\<lparr>filtered := AList.update k [] (filtered st), shared := (shared st \<and> k \<noteq> this)\<rparr>"

text \<open>
  The action that both loops build for a destination CIDR of a route: the source CIDR is
  the observer's private IPv4 when the parsed prefix is IPv4, its private IPv6 otherwise.
\<close>

definition route_action ::
  "('acl, 'e) networking \<Rightarrow> MeshNode \<Rightarrow> string \<Rightarrow> string \<Rightarrow> error + NetworkAction" where
  "route_action n thisNode dst cidr =
     (case ParsePrefix n cidr of
        Inl e \<Rightarrow> Inl (Wrapped ''parse prefix'' e)
      | Inr is4 \<Rightarrow>
          Inr \<lparr>SrcNode = Id thisNode,
               SrcCidr = (if is4 then PrivateIpv4 thisNode else PrivateIpv6 thisNode),
               DstNode = dst, DstCidr = cidr\<rparr>)"

text \<open>
  The loops over \<open>routes\<close> and \<open>route.GetDestinationCidrs()\<close>: \<open>Inr False\<close> is the
  \<open>continue Nodes\<close> (\<open>continue Peers\<close>) at the first CIDR that \<open>acls.Accept\<close> rejects,
  \<open>Inr True\<close> is falling through both loops.
\<close>

fun cidrs_allowed ::
  "('acl, 'e) networking \<Rightarrow> 'acl list \<Rightarrow> MeshNode \<Rightarrow> string \<Rightarrow> string list \<Rightarrow> error + bool" where
  "cidrs_allowed n acls thisNode dst [] = Inr True"
| "cidrs_allowed n acls thisNode dst (cidr # cidrs) =
     (case route_action n thisNode dst cidr of
        Inl e \<Rightarrow> Inl e
      | Inr action \<Rightarrow>
          if \<not> Accept n acls action then Inr False
          else cidrs_allowed n acls thisNode dst cidrs)"

fun routes_allowed ::
  "('acl, 'e) networking \<Rightarrow> 'acl list \<Rightarrow> MeshNode \<Rightarrow> string \<Rightarrow> Route list \<Rightarrow> error + bool" where
  "routes_allowed n acls thisNode dst [] = Inr True"
| "routes_allowed n acls thisNode dst (route # routes) =
     (case cidrs_allowed n acls thisNode dst (DestinationCidrs route) of
        Inl e \<Rightarrow> Inl e
      | Inr ok \<Rightarrow>
          if \<not> ok then Inr False
          else routes_allowed n acls thisNode dst routes)"

text \<open>The body of the loop labelled \<open>Nodes\<close>, for one key of \<open>fullMap\<close>.\<close>

definition filter_node ::
  "('acl, 'e) networking \<Rightarrow> 'acl list \<Rightarrow> MeshNode \<Rightarrow> string \<Rightarrow> 'e filter_state
     \<Rightarrow> error + 'e filter_state" where
  "filter_node n acls thisNode nodeID st =
     (if nodeID = Id thisNode then Inr st
      else case Get n nodeID of
        Inl e \<Rightarrow> Inl (Wrapped ''get node'' e)
      | Inr node \<Rightarrow>
          if \<not> AllowNodesToCommunicate n acls thisNode node
          then Inr (delete_edge (Id thisNode) (Id node) st)
          else case GetRoutesByNode n (Id node) of
            Inl e \<Rightarrow> Inl (Wrapped ''get routes by node'' e)
          | Inr routes \<Rightarrow>
              (case routes_allowed n acls thisNode (Id node) routes of
                 Inl e \<Rightarrow> Inl e
               | Inr ok \<Rightarrow>
                   if \<not> ok then Inr (delete_edge (Id thisNode) (Id node) st)
                   else Inr (make_row (Id thisNode) (Id node) st)))"

fun filter_nodes ::
  "('acl, 'e) networking \<Rightarrow> 'acl list \<Rightarrow> MeshNode \<Rightarrow> string list \<Rightarrow> 'e filter_state
     \<Rightarrow> error + 'e filter_state" where
  "filter_nodes n acls thisNode [] st = Inr st"
| "filter_nodes n acls thisNode (nodeID # nodeIDs) st =
     (case filter_node n acls thisNode nodeID st of
        Inl e \<Rightarrow> Inl e
      | Inr st' \<Rightarrow> filter_nodes n acls thisNode nodeIDs st')"

text \<open>
  The body of the loop labelled \<open>Peers\<close>, for one edge of \<open>fullMap[node]\<close>; \<open>row\<close> is
  \<open>filtered[node]\<close>. When \<open>filtered[node]\<close> is the object \<open>fullMap[node]\<close> itself, the
  assignment \<open>filtered[node][peerID] = e\<close> stores an entry of the map back into it.
\<close>

definition filter_peer ::
  "('acl, 'e) networking \<Rightarrow> 'acl list \<Rightarrow> MeshNode \<Rightarrow> string \<times> 'e \<Rightarrow> 'e Row \<Rightarrow> error + 'e Row" where
  "filter_peer n acls thisNode pe row =
     (case pe of (peerID, e) \<Rightarrow>
        if peerID = Id thisNode then Inr (AList.update peerID e row)
        else case Get n peerID of
          Inl err \<Rightarrow> Inl (Wrapped ''get peer'' err)
        | Inr peer \<Rightarrow>
            if \<not> AllowNodesToCommunicate n acls thisNode peer then Inr row
            else case GetRoutesByNode n peerID of
              Inl err \<Rightarrow> Inl (Wrapped ''get routes by node'' err)
            | Inr routes \<Rightarrow>
                (case routes_allowed n acls thisNode peerID routes of
                   Inl err \<Rightarrow> Inl err
                 | Inr ok \<Rightarrow> if \<not> ok then Inr row else Inr (AList.update peerID e row)))"

fun filter_peers ::
  "('acl, 'e) networking \<Rightarrow> 'acl list \<Rightarrow> MeshNode \<Rightarrow> 'e Row \<Rightarrow> 'e Row \<Rightarrow> error + 'e Row" where
  "filter_peers n acls thisNode [] row = Inr row"
| "filter_peers n acls thisNode (pe # edges) row =
     (case filter_peer n acls thisNode pe row of
        Inl e \<Rightarrow> Inl e
      | Inr row' \<Rightarrow> filter_peers n acls thisNode edges row')"

text \<open>The body of \<open>for node := range filtered\<close>, for one key of \<open>filtered\<close>.\<close>

definition filter_row ::
  "('acl, 'e) networking \<Rightarrow> 'acl list \<Rightarrow> MeshNode \<Rightarrow> 'e AdjacencyMap \<Rightarrow> string
     \<Rightarrow> 'e AdjacencyMap \<Rightarrow> error + 'e AdjacencyMap" where
  "filter_row n acls thisNode full node flt =
     (case map_of full node of
        None \<Rightarrow> Inr flt
      | Some edges \<Rightarrow>
          (case filter_peers n acls thisNode edges (row_of flt node) of
             Inl e \<Rightarrow> Inl e
           | Inr row \<Rightarrow> Inr (AList.update node row flt)))"

fun filter_rows ::
  "('acl, 'e) networking \<Rightarrow> 'acl list \<Rightarrow> MeshNode \<Rightarrow> 'e AdjacencyMap \<Rightarrow> string list
     \<Rightarrow> 'e AdjacencyMap \<Rightarrow> error + 'e AdjacencyMap" where
  "filter_rows n acls thisNode full [] flt = Inr flt"
| "filter_rows n acls thisNode full (node # nodes) flt =
     (case filter_row n acls thisNode full node flt of
        Inl e \<Rightarrow> Inl e
      | Inr flt' \<Rightarrow> filter_rows n acls thisNode full nodes flt')"

text \<open>
  \<open>FilterGraph\<close>. The nil map of \<open>return nil, nil\<close> is the empty association list.
\<close>

definition FilterGraph ::
  "('acl, 'e) networking \<Rightarrow> string \<Rightarrow> error + 'e AdjacencyMap" where
  "FilterGraph n thisNodeID =
     (case Get n thisNodeID of
        Inl e \<Rightarrow> Inl (Wrapped ''get node'' e)
      | Inr thisNode \<Rightarrow>
     (case ListNetworkACLs n of
        Inl e \<Rightarrow> Inl (Wrapped ''list network acls'' e)
      | Inr acls0 \<Rightarrow>
     if length acls0 = 0 then Inr []
     else
     (case Expand n acls0 of
        Inl e \<Rightarrow> Inl (Wrapped ''expand network acls'' e)
      | Inr acls \<Rightarrow>
     (case BuildAdjacencyMap n of
        Inl e \<Rightarrow> Inl (Wrapped ''build adjacency map'' e)
      | Inr full \<Rightarrow>
     (case filter_nodes n acls thisNode (map fst full)
             \<lparr>fullMap = full,
              filtered = [(Id thisNode, row_of full (Id thisNode))],
              shared = (map_of full (Id thisNode) \<noteq> None)\<rparr> of
        Inl e \<Rightarrow> Inl e
      | Inr st \<Rightarrow>
          filter_rows n acls thisNode (fullMap st) (map fst (filtered st)) (filtered st))))))"

section \<open>The WireGuard peer reconciler (package store)\<close>

text \<open>
  \<open>netip.Prefix\<close>, as far as the reconciler looks at it: its text and whether
  \<open>IsValid()\<close> holds. The zero \<open>Prefix\<close> is not valid.
\<close>

record Prefix =
  prefix_String :: string
  IsValid :: bool

definition zero_Prefix :: Prefix where
  "zero_Prefix = \<lparr>prefix_String = ''invalid Prefix'', IsValid = False\<rparr>"

text \<open>\<open>meshgraph.Node\<close>, the vertices of the mesh graph, and its zero value.\<close>

record Node =
  ID :: string
  PublicKey :: string
  PublicEndpoint :: string
  PrivateIPv4 :: Prefix
  PrivateIPv6 :: Prefix

definition zero_Node :: Node where
  "zero_Node =
     \<lparr>Node.ID = [], Node.PublicKey = [], PublicEndpoint = [],
      PrivateIPv4 = zero_Prefix, PrivateIPv6 = zero_Prefix\<rparr>"

record Edge =
  Source :: string
  Target :: string

text \<open>
  \<open>meshgraph.Graph\<close>: what its methods \<open>AdjacencyMap()\<close> and \<open>Vertex(hash)\<close> return.
\<close>

record Graph =
  AdjacencyMap :: "error + Edge AdjacencyMap"
  Vertex :: "string \<Rightarrow> error + Node"

record Peer =
  ID :: string
  PublicKey :: string
  Endpoint :: string
  AllowedIPs :: "Prefix list"

text \<open>
  \<open>desc, _ := graph.Vertex(descendant)\<close>: the error is dropped, and with an error the
  graph returns the zero \<open>Node\<close>.
\<close>

definition vertex_or_zero :: "Graph \<Rightarrow> string \<Rightarrow> Node" where
  "vertex_or_zero graph hash = (case Vertex graph hash of Inl e \<Rightarrow> zero_Node | Inr v \<Rightarrow> v)"

text \<open>The two conditional appends of a node's private prefixes to \<open>peer.AllowedIPs\<close>.\<close>

definition append_private :: "Node \<Rightarrow> Prefix list \<Rightarrow> Prefix list" where
  "append_private v ips =
     (let ips = (if IsValid (PrivateIPv4 v) then ips @ [PrivateIPv4 v] else ips)
      in if IsValid (PrivateIPv6 v) then ips @ [PrivateIPv6 v] else ips)"

text \<open>\<open>for descTarget := range descTargets\<close>\<close>

fun append_targets ::
  "Graph \<Rightarrow> Edge Row \<Rightarrow> string \<Rightarrow> Edge Row \<Rightarrow> Prefix list \<Rightarrow> Prefix list" where
  "append_targets graph ourDescendants nodeID [] ips = ips"
| "append_targets graph ourDescendants nodeID ((descTarget, e) # descTargets) ips =
     append_targets graph ourDescendants nodeID descTargets
       (if map_of ourDescendants descTarget = None \<and> descTarget \<noteq> nodeID
        then append_private (vertex_or_zero graph descTarget) ips
        else ips)"

text \<open>The peer that the body of \<open>for descendant, edge := range ourDescendants\<close> builds.\<close>

definition descendant_peer ::
  "Graph \<Rightarrow> Edge AdjacencyMap \<Rightarrow> string \<Rightarrow> Edge Row \<Rightarrow> string \<times> Edge \<Rightarrow> Peer" where
  "descendant_peer graph adjacencyMap nodeID ourDescendants de =
     (case de of (descendant, edge) \<Rightarrow>
        let desc = vertex_or_zero graph descendant;
            ips = append_private desc [];
            descTargets = row_of adjacencyMap (Target edge)
        in \<lparr>Peer.ID = Node.ID desc, Peer.PublicKey = Node.PublicKey desc,
             Endpoint = PublicEndpoint desc,
             AllowedIPs =
               (if length descTargets > 0
                then append_targets graph ourDescendants nodeID descTargets ips
                else ips)\<rparr>)"

text \<open>
  The loop over \<open>ourDescendants\<close>. \<open>PutPeer\<close> is the method of the WireGuard interface
  \<open>s.wg\<close>, a parameter: it returns its error, if any, and the interface afterwards.
\<close>

fun put_descendants ::
  "(Peer \<Rightarrow> 'wg \<Rightarrow> error option \<times> 'wg) \<Rightarrow> Graph \<Rightarrow> Edge AdjacencyMap \<Rightarrow> string \<Rightarrow> Edge Row
     \<Rightarrow> Edge Row \<Rightarrow> 'wg \<Rightarrow> error option \<times> 'wg" where
  "put_descendants PutPeer graph adjacencyMap nodeID ourDescendants [] w = (None, w)"
| "put_descendants PutPeer graph adjacencyMap nodeID ourDescendants (de # rest) w =
     (case PutPeer (descendant_peer graph adjacencyMap nodeID ourDescendants de) w of
        (Some err, w') \<Rightarrow> (Some (Wrapped ''put peer'' err), w')
      | (None, w') \<Rightarrow>
          put_descendants PutPeer graph adjacencyMap nodeID ourDescendants rest w')"

definition walkMeshDescendants ::
  "(Peer \<Rightarrow> 'wg \<Rightarrow> error option \<times> 'wg) \<Rightarrow> string \<Rightarrow> Graph \<Rightarrow> 'wg \<Rightarrow> error option \<times> 'wg" where
  "walkMeshDescendants PutPeer nodeID graph w =
     (case AdjacencyMap graph of
        Inl err \<Rightarrow> (Some (Wrapped ''adjacency map'' err), w)
      | Inr adjacencyMap \<Rightarrow>
          let ourDescendants = row_of adjacencyMap nodeID
          in if length ourDescendants = 0 then (None, w)
             else put_descendants PutPeer graph adjacencyMap nodeID ourDescendants
                    ourDescendants w)"

text \<open>
  The part of the \<open>store\<close> that \<open>RefreshWireguardPeers\<close> touches: its node id, the
  WireGuard interface (\<open>None\<close> is \<open>s.wg == nil\<close>) and the entries that \<open>s.log.Error\<close>
  wrote. The mutex \<open>wgmux\<close> and the debug log are left out.
\<close>

record 'wg store =
  nodeID :: string
  wg :: "'wg option"
  log :: "(string \<times> error) list"

text \<open>\<open>build\<close> is the result of \<open>meshgraph.New(s).Build(ctx)\<close>.\<close>

definition RefreshWireguardPeers ::
  "(Peer \<Rightarrow> 'wg \<Rightarrow> error option \<times> 'wg) \<Rightarrow> error + Graph \<Rightarrow> 'wg store
     \<Rightarrow> error option \<times> 'wg store" where
  "RefreshWireguardPeers PutPeer build s =
     (case wg s of
        None \<Rightarrow> (None, s)
      | Some w \<Rightarrow>
          (case build of
             Inl err \<Rightarrow> (Some err, s\<lparr>log := log s @ [(''build dag'', err)]\<rparr>)
           | Inr dag \<Rightarrow>
               (case walkMeshDescendants PutPeer (nodeID s) dag w of
                  (Some err, w') \<Rightarrow>
                    (None, s\<lparr>wg := Some w', log := log s @ [(''walk mesh descendants'', err)]\<rparr>)
                | (None, w') \<Rightarrow> (None, s\<lparr>wg := Some w'\<rparr>))))"

section \<open>The Join RPC of the node service (pkg/services/node)\<close>

text \<open>
  A \<open>wgtypes.Key\<close> and a \<open>netip.AddrPort\<close> are identified with the text that their
  \<open>String()\<close> prints, which determines them.
\<close>

type_synonym Key = string
type_synonym AddrPort = string

definition zero_AddrPort :: AddrPort where
  "zero_AddrPort = ''invalid AddrPort''"

text \<open>The request, with the getters that \<open>Join\<close> calls as fields.\<close>

record JoinRequest =
  GetId :: string
  GetPublicKey :: string
  GetEndpoint :: string
  GetGrpcPort :: int
  GetRaftPort :: int
  GetAllowedIps :: "string list"
  GetAvailableZones :: "string list"
  GetAssignAsn :: bool
  GetAssignIpv4 :: bool
  GetPreferRaftIpv6 :: bool

text \<open>\<open>peers.Node\<close>, with the fields that \<open>Join\<close> reads or writes, and a time of update.\<close>

record peers_Node =
  ID :: string
  PublicKey :: Key
  Endpoint :: AddrPort
  NetworkIPv6 :: Prefix
  PrivateIPv4 :: Prefix
  GRPCPort :: int
  RaftPort :: int
  AllowedIPs :: "string list"
  AvailableZones :: "string list"
  ASN :: nat
  UpdatedAt :: nat

record CreateOptions =
  ID :: string
  PublicKey :: Key
  Endpoint :: AddrPort
  NetworkIPv6 :: Prefix
  GRPCPort :: int
  RaftPort :: int
  AllowedIPs :: "string list"
  AvailableZones :: "string list"
  AssignASN :: bool

record WireguardPeer =
  PublicKey :: string
  Asn :: nat
  Endpoint :: string
  AddressIpv4 :: string
  AddressIpv6 :: string
  AllowedIps :: "string list"

record JoinResponse =
  NetworkIpv6 :: string
  Asn :: nat
  AddressIpv4 :: string
  Peers :: "WireguardPeer list"

text \<open>The sentinel \<open>peers.ErrNodeNotFound\<close>.\<close>

definition ErrNodeNotFound :: error where
  "ErrNodeNotFound = Sentinel ''peers.ErrNodeNotFound''"

text \<open>
  The collaborators of \<open>Join\<close> that are not in server_join.go, as parameters over the
  state \<open>'s\<close> of the store behind \<open>s.store\<close>, \<open>s.peers\<close> and \<open>s.ipam\<close>. An operation that
  writes returns its result and the store afterwards. \<open>Addr_String\<close> is
  \<open>prefix.Addr().String()\<close>.
\<close>

record 's join_deps =
  store_IsLeader :: "'s \<Rightarrow> bool"
  raftdb_GetULAPrefix :: "'s \<Rightarrow> error + string"
  netip_ParsePrefix :: "string \<Rightarrow> error + Prefix"
  wgtypes_ParseKey :: "string \<Rightarrow> error + Key"
  netip_ParseAddrPort :: "string \<Rightarrow> error + AddrPort"
  Addr_String :: "Prefix \<Rightarrow> string"
  util_Random64 :: "'s \<Rightarrow> Prefix \<Rightarrow> error + Prefix"
  peers_Get :: "'s \<Rightarrow> string \<Rightarrow> error + peers_Node"
  peers_Update :: "'s \<Rightarrow> peers_Node \<Rightarrow> (error + peers_Node) \<times> 's"
  peers_Create :: "'s \<Rightarrow> CreateOptions \<Rightarrow> (error + peers_Node) \<times> 's"
  peers_AssignASN :: "'s \<Rightarrow> string \<Rightarrow> (error + nat) \<times> 's"
  peers_ListPeers :: "'s \<Rightarrow> string \<Rightarrow> error + peers_Node list"
  ipam_Acquire :: "'s \<Rightarrow> string \<Rightarrow> (error + Prefix) \<times> 's"
  store_AddNonVoter :: "'s \<Rightarrow> string \<Rightarrow> string \<times> int \<Rightarrow> error option \<times> 's"

text \<open>The \<open>Server\<close>: the ULA prefix that it caches and the store.\<close>

record 's Server =
  ulaPrefix :: Prefix
  store :: 's

text \<open>
  The first lines after the leader check: the ULA prefix is read from the mesh state and
  parsed unless the server holds a valid one.
\<close>

definition load_ula :: "'s join_deps \<Rightarrow> 's Server \<Rightarrow> error + 's Server" where
  "load_ula d s =
     (if \<not> IsValid (ulaPrefix s) then
        (case raftdb_GetULAPrefix d (store s) of
           Inl err \<Rightarrow> Inl (Statusf Internal ''failed to get ULA prefix'' err)
         | Inr ula \<Rightarrow>
             (case netip_ParsePrefix d ula of
                Inl err \<Rightarrow> Inl (Statusf Internal ''failed to parse ULA prefix'' err)
              | Inr pfx \<Rightarrow> Inr (s\<lparr>ulaPrefix := pfx\<rparr>)))
      else Inr s)"

text \<open>\<open>// Validate inputs\<close>: the parsed public key and endpoint, or the status error.\<close>

definition validate :: "'s join_deps \<Rightarrow> JoinRequest \<Rightarrow> error + Key \<times> AddrPort" where
  "validate d req =
     (if GetId req = [] then Inl (Status InvalidArgument ''node id required'')
      else case wgtypes_ParseKey d (GetPublicKey req) of
        Inl err \<Rightarrow> Inl (Statusf InvalidArgument ''invalid public key'' err)
      | Inr publicKey \<Rightarrow>
          if GetEndpoint req \<noteq> [] then
            (case netip_ParseAddrPort d (GetEndpoint req) of
               Inl err \<Rightarrow> Inl (Statusf InvalidArgument ''invalid endpoint'' err)
             | Inr endpoint \<Rightarrow> Inr (publicKey, endpoint))
          else Inr (publicKey, zero_AddrPort))"

text \<open>
  The six conditional assignments to the peer that exists. \<open>cmp.Equal\<close> on the two string
  slices only decides whether the assignment happens; the slice afterwards has the
  request's elements either way.
\<close>

definition merge_peer :: "peers_Node \<Rightarrow> Key \<Rightarrow> AddrPort \<Rightarrow> JoinRequest \<Rightarrow> peers_Node" where
  "merge_peer peer publicKey endpoint req =
     (let peer = (if peers_Node.PublicKey peer \<noteq> publicKey
                  then peer\<lparr>peers_Node.PublicKey := publicKey\<rparr> else peer);
          peer = (if peers_Node.GRPCPort peer \<noteq> GetGrpcPort req
                  then peer\<lparr>peers_Node.GRPCPort := GetGrpcPort req\<rparr> else peer);
          peer = (if peers_Node.RaftPort peer \<noteq> GetRaftPort req
                  then peer\<lparr>peers_Node.RaftPort := GetRaftPort req\<rparr> else peer);
          peer = (if peers_Node.Endpoint peer \<noteq> endpoint
                  then peer\<lparr>peers_Node.Endpoint := endpoint\<rparr> else peer);
          peer = (if peers_Node.AllowedIPs peer \<noteq> GetAllowedIps req
                  then peer\<lparr>peers_Node.AllowedIPs := GetAllowedIps req\<rparr> else peer)
      in if peers_Node.AvailableZones peer \<noteq> GetAvailableZones req
         then peer\<lparr>peers_Node.AvailableZones := GetAvailableZones req\<rparr> else peer)"

text \<open>
  \<open>// Check if the peer already exists\<close>: the peer updated or created, and the store.
  The error of \<open>peers.Get\<close> is compared with the sentinel itself: any other error, also
  one with the same message, is a database error.
\<close>

definition update_or_create ::
  "'s join_deps \<Rightarrow> 's Server \<Rightarrow> JoinRequest \<Rightarrow> Key \<Rightarrow> AddrPort \<Rightarrow> (error + peers_Node) \<times> 's" where
  "update_or_create d s req publicKey endpoint =
     (case peers_Get d (store s) (GetId req) of
        Inl err \<Rightarrow>
          if err \<noteq> ErrNodeNotFound
          then (Inl (Statusf Internal ''failed to get peer'' err), store s)
          else
            (case util_Random64 d (store s) (ulaPrefix s) of
               Inl err \<Rightarrow> (Inl (Statusf Internal ''failed to generate IPv6 address'' err), store s)
             | Inr networkIPv6 \<Rightarrow>
                 (case peers_Create d (store s)
                         \<lparr>CreateOptions.ID = GetId req,
                          CreateOptions.PublicKey = publicKey,
                          CreateOptions.Endpoint = endpoint,
                          CreateOptions.NetworkIPv6 = networkIPv6,
                          CreateOptions.GRPCPort = GetGrpcPort req,
                          CreateOptions.RaftPort = GetRaftPort req,
                          CreateOptions.AllowedIPs = GetAllowedIps req,
                          CreateOptions.AvailableZones = GetAvailableZones req,
                          AssignASN = GetAssignAsn req\<rparr> of
                    (Inl err, st) \<Rightarrow> (Inl (Statusf Internal ''failed to create peer'' err), st)
                  | (Inr peer, st) \<Rightarrow> (Inr peer, st)))
      | Inr peer \<Rightarrow>
          (case peers_Update d (store s) (merge_peer peer publicKey endpoint req) of
             (Inl err, st) \<Rightarrow> (Inl (Statusf Internal ''failed to update peer'' err), st)
           | (Inr peer, st) \<Rightarrow> (Inr peer, st)))"

text \<open>
  The rest of \<open>Join\<close>, from \<open>resp := &v1.JoinResponse{...}\<close> on. The raft address
  \<open>net.JoinHostPort(host, strconv.Itoa(port))\<close> is kept as the pair of host and port.
\<close>

definition assign_asn ::
  "'s join_deps \<Rightarrow> JoinRequest \<Rightarrow> peers_Node \<Rightarrow> 's \<Rightarrow> (error + nat) \<times> 's" where
  "assign_asn d req peer st =
     (if GetAssignAsn req \<and> peers_Node.ASN peer = 0 then
        (case peers_AssignASN d st (GetId req) of
           (Inl err, st') \<Rightarrow> (Inl (Statusf Internal ''failed to assign ASN'' err), st')
         | (Inr asn, st') \<Rightarrow> (Inr asn, st'))
      else (Inr (peers_Node.ASN peer), st))"

text \<open>The lease, when one is asked for; \<open>var lease ipam.Lease\<close> is the zero lease.\<close>

definition assign_ipv4 ::
  "'s join_deps \<Rightarrow> JoinRequest \<Rightarrow> 's \<Rightarrow> (error + Prefix \<times> string) \<times> 's" where
  "assign_ipv4 d req st =
     (if GetAssignIpv4 req then
        (case ipam_Acquire d st (GetId req) of
           (Inl err, st') \<Rightarrow> (Inl (Statusf Internal ''failed to assign IPv4'' err), st')
         | (Inr lease, st') \<Rightarrow> (Inr (lease, prefix_String lease), st'))
      else (Inr (zero_Prefix, []), st))"

definition to_WireguardPeer :: "peers_Node \<Rightarrow> WireguardPeer" where
  "to_WireguardPeer peer =
     \<lparr>WireguardPeer.PublicKey = peers_Node.PublicKey peer,
      WireguardPeer.Asn = peers_Node.ASN peer,
      WireguardPeer.Endpoint = peers_Node.Endpoint peer,
      WireguardPeer.AddressIpv4 = prefix_String (peers_Node.PrivateIPv4 peer),
      AddressIpv6 = prefix_String (peers_Node.NetworkIPv6 peer),
      AllowedIps = peers_Node.AllowedIPs peer\<rparr>"

definition add_and_list ::
  "'s join_deps \<Rightarrow> JoinRequest \<Rightarrow> peers_Node \<Rightarrow> nat \<Rightarrow> Prefix \<times> string \<Rightarrow> 's
     \<Rightarrow> (error + JoinResponse) \<times> 's" where
  "add_and_list d req peer asn lease st =
     (let raftAddress =
            (if GetAssignIpv4 req \<and> \<not> GetPreferRaftIpv6 req
             then (Addr_String d (fst lease), peers_Node.RaftPort peer)
             else (Addr_String d (peers_Node.NetworkIPv6 peer), peers_Node.RaftPort peer))
      in case store_AddNonVoter d st (GetId req) raftAddress of
           (Some err, st') \<Rightarrow> (Inl (Statusf Internal ''failed to add non-voter'' err), st')
         | (None, st') \<Rightarrow>
             (case peers_ListPeers d st' (GetId req) of
                Inl err \<Rightarrow> (Inl (Statusf Internal ''failed to list peers'' err), st')
              | Inr peers \<Rightarrow>
                  (Inr \<lparr>NetworkIpv6 = prefix_String (peers_Node.NetworkIPv6 peer),
                        JoinResponse.Asn = asn,
                        JoinResponse.AddressIpv4 = snd lease,
                        Peers = map to_WireguardPeer peers\<rparr>, st')))"

definition respond ::
  "'s join_deps \<Rightarrow> JoinRequest \<Rightarrow> peers_Node \<Rightarrow> 's \<Rightarrow> (error + JoinResponse) \<times> 's" where
  "respond d req peer st =
     (case assign_asn d req peer st of
        (Inl err, st1) \<Rightarrow> (Inl err, st1)
      | (Inr asn, st1) \<Rightarrow>
          (case assign_ipv4 d req st1 of
             (Inl err, st2) \<Rightarrow> (Inl err, st2)
           | (Inr lease, st2) \<Rightarrow> add_and_list d req peer asn lease st2))"

definition Join ::
  "'s join_deps \<Rightarrow> 's Server \<Rightarrow> JoinRequest \<Rightarrow> (error + JoinResponse) \<times> 's Server" where
  "Join d s req =
     (if \<not> store_IsLeader d (store s) then (Inl (Status FailedPrecondition ''not leader''), s)
      else case load_ula d s of
        Inl err \<Rightarrow> (Inl err, s)
      | Inr s \<Rightarrow>
          (case validate d req of
             Inl err \<Rightarrow> (Inl err, s)
           | Inr (publicKey, endpoint) \<Rightarrow>
               (case update_or_create d s req publicKey endpoint of
                  (Inl err, st) \<Rightarrow> (Inl err, s\<lparr>store := st\<rparr>)
                | (Inr peer, st) \<Rightarrow>
                    (case respond d req peer st of
                       (r, st') \<Rightarrow> (r, s\<lparr>store := st'\<rparr>)))))"


subsection \<open>The registry behind the server\<close>

text \<open>
  The state behind \<open>s.store\<close>: leadership, the table \<open>mesh_state\<close> of raftdb, the peer
  registry, the leases, the last ASN given out, the raft non-voters (node id to host and
  port) and the time.
\<close>

record Registry =
  leader :: bool
  mesh_state :: "(string \<times> string) list"
  nodes :: "(string \<times> peers_Node) list"
  leases :: "(string \<times> Prefix) list"
  asn_counter :: nat
  non_voters :: "(string \<times> string \<times> int) list"
  clock :: nat

text \<open>
  \<open>GetULAPrefix\<close> of raftdb: \<open>SELECT value FROM mesh_state WHERE key = 'ULAPrefix'\<close>, and
  the error of \<open>row.Scan\<close> when there is no such row, the sentinel \<open>sql.ErrNoRows\<close>.
\<close>

definition GetULAPrefix :: "Registry \<Rightarrow> error + string" where
  "GetULAPrefix r =
     (case map_of (mesh_state r) ''ULAPrefix'' of
        None \<Rightarrow> Inl (Sentinel ''sql.ErrNoRows'')
      | Some v \<Rightarrow> Inr v)"

text \<open>
  The functions of libraries that \<open>Join\<close> calls: \<open>netip.ParsePrefix\<close>, \<open>wgtypes.ParseKey\<close>,
  \<open>netip.ParseAddrPort\<close>, \<open>Addr().String()\<close> of a prefix, \<open>util.Random64\<close>, and the choice
  of the next free IPv4 address given the addresses that are leased.
\<close>

record library =
  lib_ParsePrefix :: "string \<Rightarrow> error + Prefix"
  lib_ParseKey :: "string \<Rightarrow> error + Key"
  lib_ParseAddrPort :: "string \<Rightarrow> error + AddrPort"
  lib_Addr_String :: "Prefix \<Rightarrow> string"
  lib_Random64 :: "Prefix \<Rightarrow> error + Prefix"
  lib_next_free :: "Prefix list \<Rightarrow> error + Prefix"

text \<open>
  Modelled from the spec: the operations \<open>Get\<close>, \<open>Update\<close>, \<open>Create\<close>, \<open>AssignASN\<close> and
  \<open>ListPeers\<close> of the Peer Registry (package peers), whose code is not among the source
  files. The registry is an index from node id to node; \<open>Get\<close> of an id that is not
  registered is \<open>ErrNodeNotFound\<close>; \<open>Update\<close> persists the node it is given under its id,
  with the time of the update; \<open>Create\<close> refuses an id that is registered (node ids are
  unique) and assigns an ASN from a monotonic counter when asked to; \<open>ListPeers\<close> lists
  the nodes other than the one excluded.
\<close>

definition registry_Get :: "Registry \<Rightarrow> string \<Rightarrow> error + peers_Node" where
  "registry_Get r i =
     (case map_of (nodes r) i of None \<Rightarrow> Inl ErrNodeNotFound | Some node \<Rightarrow> Inr node)"

definition registry_Update :: "Registry \<Rightarrow> peers_Node \<Rightarrow> (error + peers_Node) \<times> Registry" where
  "registry_Update r node =
     (let node' = node\<lparr>UpdatedAt := clock r\<rparr>
      in (Inr node', r\<lparr>nodes := AList.update (peers_Node.ID node) node' (nodes r)\<rparr>))"

definition registry_Create :: "Registry \<Rightarrow> CreateOptions \<Rightarrow> (error + peers_Node) \<times> Registry" where
  "registry_Create r opts =
     (if map_of (nodes r) (CreateOptions.ID opts) \<noteq> None
      then (Inl (Err ''node already exists''), r)
      else
        let asn = (if AssignASN opts then Suc (asn_counter r) else 0);
            node =
              \<lparr>peers_Node.ID = CreateOptions.ID opts,
               peers_Node.PublicKey = CreateOptions.PublicKey opts,
               peers_Node.Endpoint = CreateOptions.Endpoint opts,
               peers_Node.NetworkIPv6 = CreateOptions.NetworkIPv6 opts,
               peers_Node.PrivateIPv4 = zero_Prefix,
               peers_Node.GRPCPort = CreateOptions.GRPCPort opts,
               peers_Node.RaftPort = CreateOptions.RaftPort opts,
               peers_Node.AllowedIPs = CreateOptions.AllowedIPs opts,
               peers_Node.AvailableZones = CreateOptions.AvailableZones opts,
               ASN = asn, UpdatedAt = clock r\<rparr>
        in (Inr node,
            r\<lparr>nodes := nodes r @ [(CreateOptions.ID opts, node)],
              asn_counter := (if AssignASN opts then asn else asn_counter r)\<rparr>))"

definition registry_AssignASN :: "Registry \<Rightarrow> string \<Rightarrow> (error + nat) \<times> Registry" where
  "registry_AssignASN r i =
     (case map_of (nodes r) i of
        None \<Rightarrow> (Inl ErrNodeNotFound, r)
      | Some node \<Rightarrow>
          let asn = Suc (asn_counter r)
          in (Inr asn, r\<lparr>nodes := AList.update i (node\<lparr>ASN := asn\<rparr>) (nodes r),
                         asn_counter := asn\<rparr>))"

definition registry_ListPeers :: "Registry \<Rightarrow> string \<Rightarrow> error + peers_Node list" where
  "registry_ListPeers r i = Inr (map snd (filter (\<lambda>(k, node). k \<noteq> i) (nodes r)))"

text \<open>
  Modelled from the spec: \<open>ipam.Acquire\<close> (\<open>AcquireLease\<close>), whose code is not among the
  source files. A lease binds a node id to an IPv4 address and is unique per node id:
  a node that holds a lease is given that lease, another node the next free address.
\<close>

definition registry_Acquire :: "library \<Rightarrow> Registry \<Rightarrow> string \<Rightarrow> (error + Prefix) \<times> Registry" where
  "registry_Acquire lib r i =
     (case map_of (leases r) i of
        Some lease \<Rightarrow> (Inr lease, r)
      | None \<Rightarrow>
          (case lib_next_free lib (map snd (leases r)) of
             Inl err \<Rightarrow> (Inl err, r)
           | Inr lease \<Rightarrow> (Inr lease, r\<lparr>leases := leases r @ [(i, lease)]\<rparr>)))"

text \<open>
  Modelled from the spec: \<open>AddNonVoter\<close> of the store, whose code is not among the
  source files: the joiner becomes a non-voter of the replicated log at its raft address.
\<close>

definition registry_AddNonVoter ::
  "Registry \<Rightarrow> string \<Rightarrow> string \<times> int \<Rightarrow> error option \<times> Registry" where
  "registry_AddNonVoter r i raftAddress =
     (None, r\<lparr>non_voters := AList.update i raftAddress (non_voters r)\<rparr>)"

definition registry_deps :: "library \<Rightarrow> Registry join_deps" where
  "registry_deps lib =
     \<lparr>store_IsLeader = leader,
      raftdb_GetULAPrefix = GetULAPrefix,
      netip_ParsePrefix = lib_ParsePrefix lib,
      wgtypes_ParseKey = lib_ParseKey lib,
      netip_ParseAddrPort = lib_ParseAddrPort lib,
      Addr_String = lib_Addr_String lib,
      util_Random64 = (\<lambda>r. lib_Random64 lib),
      peers_Get = registry_Get,
      peers_Update = registry_Update,
      peers_Create = registry_Create,
      peers_AssignASN = registry_AssignASN,
      peers_ListPeers = registry_ListPeers,
      ipam_Acquire = registry_Acquire lib,
      store_AddNonVoter = registry_AddNonVoter\<rparr>"

section \<open>The join loop of the client (package store)\<close>

text \<open>
  What one pass through the body of the loop meets: \<open>grpc.DialContext\<close> fails, or the
  \<open>Join\<close> RPC fails, each with the value of \<open>ctx.Err()\<close> that the body reads next, or the
  RPC answers.
\<close>

datatype 'resp attempt =
  DialFailed error "error option"
| JoinFailed error "error option"
| JoinOK 'resp

text \<open>
  How the function goes on after the loop: it has returned \<open>ctx.Err()\<close> from inside the
  loop, or it left the loop by \<open>break\<close> with a response, or the loop condition failed.
\<close>

datatype 'resp loop_end = Cancelled error | Joined 'resp | Exhausted

text \<open>\<open>tries++\<close> on a 64-bit \<open>int\<close>.\<close>

definition incr64 :: "int \<Rightarrow> int" where
  "incr64 i = (i + 1 + 2 ^ 63) mod 2 ^ 64 - 2 ^ 63"

text \<open>
  The loop \<open>for tries <= s.opts.MaxJoinRetries\<close>. \<open>attempts n\<close> is what the pass number
  \<open>n\<close> meets; the result is how the loop ends, the number of passes made and the number
  of \<open>time.Sleep(time.Second)\<close> made. The loop need not end, so the function is partial.
\<close>

partial_function (option) join_loop ::
  "(nat \<Rightarrow> 'resp attempt) \<Rightarrow> int \<Rightarrow> int \<Rightarrow> nat \<Rightarrow> nat \<Rightarrow> ('resp loop_end \<times> nat \<times> nat) option" where
  "join_loop attempts MaxJoinRetries tries n slept =
     (if tries \<le> MaxJoinRetries then
        (case attempts n of
           DialFailed err ctx_err \<Rightarrow>
             (case ctx_err of
                Some e \<Rightarrow> Some (Cancelled e, Suc n, slept)
              | None \<Rightarrow> join_loop attempts MaxJoinRetries (incr64 tries) (Suc n) (Suc slept))
         | JoinFailed err ctx_err \<Rightarrow>
             (case ctx_err of
                Some e \<Rightarrow> Some (Cancelled e, Suc n, slept)
              | None \<Rightarrow> join_loop attempts MaxJoinRetries (incr64 tries) (Suc n) (Suc slept))
         | JoinOK resp \<Rightarrow> Some (Joined resp, Suc n, slept))
      else Some (Exhausted, n, slept))"

text \<open>The value of \<open>ctx.Err()\<close> that a failed pass reads, and whether a pass fails.\<close>

fun ctx_Err :: "'resp attempt \<Rightarrow> error option" where
  "ctx_Err (DialFailed err ctx_err) = ctx_err"
| "ctx_Err (JoinFailed err ctx_err) = ctx_err"
| "ctx_Err (JoinOK resp) = None"

fun failed :: "'resp attempt \<Rightarrow> bool" where
  "failed (DialFailed err ctx_err) = True"
| "failed (JoinFailed err ctx_err) = True"
| "failed (JoinOK resp) = False"

section \<open>Scenarios\<close>

text \<open>
  Scenario S6 of the specification: the observer \<open>A\<close> admitted \<open>D\<close>; \<open>D\<close> advertises the
  route \<open>192.168.10.0/24\<close>; one ACL is stored, every pair of nodes may communicate, and
  every action towards \<open>192.168.10.0/24\<close> is rejected.
\<close>

definition route_d_lan :: Route where
  "route_d_lan = \<lparr>Name = ''d-lan'', Node = ''D'', DestinationCidrs = [''192.168.10.0/24'']\<rparr>"

definition node_named :: "string \<Rightarrow> MeshNode" where
  "node_named i = \<lparr>Id = i, PrivateIpv4 = ''10.0.0.1/32'', PrivateIpv6 = ''fd00::1/112''\<rparr>"

definition net_S6 :: "(string, unit) networking" where
  "net_S6 =
     \<lparr>storage = Inr [(''/registry/routes/d-lan'', ''d-lan''),
                     (''/registry/network-acls/deny-lan'', ''deny-lan'')],
      RegistryPrefix = ''/registry/'',
      unmarshal_route =
        (\<lambda>v. if v = ''d-lan'' then Inr route_d_lan else Inl (Err ''proto: syntax error'')),
      unmarshal_acl = (\<lambda>v. Inr v),
      Get = (\<lambda>i. if i = ''A'' \<or> i = ''D'' then Inr (node_named i)
                  else Inl (Err ''node not found'')),
      BuildAdjacencyMap = Inr [(''A'', [(''D'', ())]), (''D'', [])],
      Expand = (\<lambda>acls. Inr acls),
      AllowNodesToCommunicate = (\<lambda>acls a b. True),
      Accept = (\<lambda>acls a. DstCidr a \<noteq> ''192.168.10.0/24''),
      ParsePrefix = (\<lambda>c. Inr True)\<rparr>"

text \<open>The same mesh with no ACL stored.\<close>

definition net_no_acls :: "(string, unit) networking" where
  "net_no_acls = net_S6\<lparr>storage := Inr [(''/registry/routes/d-lan'', ''d-lan'')]\<rparr>"

text \<open>
  A WireGuard interface for the scenarios: it keeps the peers it was given, in order,
  and \<open>fails\<close> says which calls of \<open>PutPeer\<close> return an error.
\<close>

definition recording :: "(Peer \<Rightarrow> error option) \<Rightarrow> Peer \<Rightarrow> Peer list \<Rightarrow> error option \<times> Peer list" where
  "recording fails peer w = (fails peer, w @ [peer])"

text \<open>
  Scenario S1 of the specification, the chain \<open>A \<rightarrow> B \<rightarrow> C\<close>, seen from \<open>A\<close>. No node has
  a private IPv6 prefix.
\<close>

definition host :: "string \<Rightarrow> string \<Rightarrow> Node" where
  "host i ip =
     \<lparr>Node.ID = i, Node.PublicKey = ''key-'' @ i, Node.PublicEndpoint = [],
      Node.PrivateIPv4 = \<lparr>prefix_String = ip, IsValid = True\<rparr>,
      Node.PrivateIPv6 = zero_Prefix\<rparr>"

definition graph_S1 :: Graph where
  "graph_S1 =
     \<lparr>AdjacencyMap =
        Inr [(''A'', [(''B'', \<lparr>Source = ''A'', Target = ''B''\<rparr>)]),
             (''B'', [(''C'', \<lparr>Source = ''B'', Target = ''C''\<rparr>)]),
             (''C'', [])],
      Vertex =
        (\<lambda>h. if h = ''A'' then Inr (host ''A'' ''10.0.0.1/32'')
              else if h = ''B'' then Inr (host ''B'' ''10.0.0.2/32'')
              else if h = ''C'' then Inr (host ''C'' ''10.0.0.3/32'')
              else Inl (Err ''vertex not found''))\<rparr>"

text \<open>
  Scenario S4 of the specification: the node \<open>X\<close> is registered with the key \<open>K1\<close> and
  holds a lease, and joins again with the key \<open>K2\<close>.
\<close>

definition lib_S4 :: library where
  "lib_S4 =
     \<lparr>lib_ParsePrefix = (\<lambda>t. Inr \<lparr>prefix_String = t, IsValid = True\<rparr>),
      lib_ParseKey = (\<lambda>t. if length t = 2 then Inr t else Inl (Err ''incorrect key size'')),
      lib_ParseAddrPort = (\<lambda>t. if CHR '':'' \<in> set t then Inr t else Inl (Err ''not an ip:port'')),
      lib_Addr_String = (\<lambda>p. takeWhile (\<lambda>c. c \<noteq> CHR ''/'') (prefix_String p)),
      lib_Random64 = (\<lambda>p. Inr \<lparr>prefix_String = ''fd00:0:0:1::/64'', IsValid = True\<rparr>),
      lib_next_free = (\<lambda>taken. Inl (Err ''no more addresses''))\<rparr>"

definition node_X :: peers_Node where
  "node_X =
     \<lparr>peers_Node.ID = ''X'', peers_Node.PublicKey = ''K1'',
      peers_Node.Endpoint = zero_AddrPort,
      peers_Node.NetworkIPv6 = \<lparr>prefix_String = ''fd00:0:0:7::/64'', IsValid = True\<rparr>,
      peers_Node.PrivateIPv4 = zero_Prefix,
      peers_Node.GRPCPort = 8443, peers_Node.RaftPort = 9443,
      peers_Node.AllowedIPs = [], peers_Node.AvailableZones = [],
      ASN = 0, UpdatedAt = 1\<rparr>"

definition registry_S4 :: Registry where
  "registry_S4 =
     \<lparr>leader = True,
      mesh_state = [(''IPv4Prefix'', ''10.0.0.0/24''), (''ULAPrefix'', ''fd00::/48'')],
      nodes = [(''X'', node_X)],
      leases = [(''X'', \<lparr>prefix_String = ''10.0.0.7/32'', IsValid = True\<rparr>)],
      asn_counter = 0,
      non_voters = [(''X'', (''10.0.0.7'', 9443))],
      clock = 2\<rparr>"

definition server_S4 :: "Registry Server" where
  "server_S4 = \<lparr>ulaPrefix = zero_Prefix, store = registry_S4\<rparr>"

text \<open>The same leader with no ULA prefix, neither cached nor in the mesh state.\<close>

definition server_no_ula :: "Registry Server" where
  "server_no_ula =
     \<lparr>ulaPrefix = zero_Prefix,
      store = registry_S4\<lparr>mesh_state := [(''IPv4Prefix'', ''10.0.0.0/24'')]\<rparr>\<rparr>"

definition rejoin_X :: JoinRequest where
  "rejoin_X =
     \<lparr>GetId = ''X'', GetPublicKey = ''K2'', GetEndpoint = [],
      GetGrpcPort = 8443, GetRaftPort = 9443,
      GetAllowedIps = [], GetAvailableZones = [],
      GetAssignAsn = False, GetAssignIpv4 = True, GetPreferRaftIpv6 = False\<rparr>"



text \<open>
  Three runs of the join loop: two refused dials and then an answer; a failed RPC and then
  one after the deadline of the context; dials refused for ever.
\<close>

definition two_refusals :: "nat \<Rightarrow> string attempt" where
  "two_refusals i =
     (if i < 2 then DialFailed (Err ''connection refused'') None else JoinOK ''resp'')"

definition deadline :: "nat \<Rightarrow> string attempt" where
  "deadline i =
     (if i < 1 then JoinFailed (Err ''unavailable'') None
      else JoinFailed (Err ''unavailable'') (Some (Err ''context deadline exceeded'')))"

definition always_refused :: "nat \<Rightarrow> string attempt" where
  "always_refused i = DialFailed (Err ''connection refused'') None"

section \<open>Notions used in the proofs\<close>

definition keys :: "('k \<times> 'v) list \<Rightarrow> 'k set" where
  "keys m = fst ` set m"

text \<open>A node one of whose advertised destination CIDRs is rejected for the observer.\<close>

definition rejected :: "('acl, 'e) networking \<Rightarrow> 'acl list \<Rightarrow> MeshNode \<Rightarrow> string \<Rightarrow> bool" where
  "rejected n acls thisNode D \<longleftrightarrow>
     (\<exists>routes r cidr a. ListRoutes n = Inr routes \<and> r \<in> set routes \<and> Node r = D \<and>
        cidr \<in> set (DestinationCidrs r) \<and> route_action n thisNode D cidr = Inr a \<and>
        \<not> Accept n acls a)"

text \<open>No row of the map has an edge to \<open>D\<close>.\<close>

definition rows_without :: "string \<Rightarrow> 'e AdjacencyMap \<Rightarrow> bool" where
  "rows_without D m \<longleftrightarrow> list_all (\<lambda>kr. D \<notin> keys (snd kr)) m"

text \<open>
  During the first loop the keys of \<open>filtered\<close> are distinct and every row but the
  observer's is a fresh empty map.
\<close>

definition fresh_rows :: "string \<Rightarrow> 'e AdjacencyMap \<Rightarrow> bool" where
  "fresh_rows obs m \<longleftrightarrow>
     distinct (map fst m) \<and> list_all (\<lambda>kr. fst kr \<noteq> obs \<longrightarrow> snd kr = []) m"

text \<open>The private prefixes of a node that are valid.\<close>

definition private_prefixes :: "Node \<Rightarrow> Prefix set" where
  "private_prefixes v = {p \<in> {Node.PrivateIPv4 v, Node.PrivateIPv6 v}. IsValid p}"

text \<open>A pass that is retried: a failure with no context error.\<close>

fun retried :: "'resp attempt \<Rightarrow> bool" where
  "retried (DialFailed err ctx_err) = (ctx_err = None)"
| "retried (JoinFailed err ctx_err) = (ctx_err = None)"
| "retried (JoinOK resp) = False"

text \<open>How a pass that is not retried ends the loop.\<close>

fun ends :: "'resp attempt \<Rightarrow> 'resp loop_end" where
  "ends (DialFailed err ctx_err) = (case ctx_err of Some e \<Rightarrow> Cancelled e | None \<Rightarrow> Exhausted)"
| "ends (JoinFailed err ctx_err) = (case ctx_err of Some e \<Rightarrow> Cancelled e | None \<Rightarrow> Exhausted)"
| "ends (JoinOK resp) = Joined resp"

section \<open>Properties of the networking database\<close>

subsection \<open>Routes by CIDR\<close>


lemma has_destination_iff:
  "has_destination cidr ds \<longleftrightarrow> list_ex (\<lambda>destination. prefix cidr destination) ds"
  by (induction ds) auto

lemma routes_by_cidr_filter:
  "routes_by_cidr cidr routes out =
     out @ filter (\<lambda>r. list_ex (\<lambda>destination. prefix cidr destination) (DestinationCidrs r)) routes"
  by (induction routes arbitrary: out) (auto simp: has_destination_iff)

text \<open>
  C10. For every argument \<open>cidr\<close>, when the routes can be listed, \<open>GetRoutesByCIDR\<close>
  returns exactly the listed routes (in their order) that have at least one destination
  CIDR whose string starts with \<open>cidr\<close>, a comparison of strings and not of networks; a
  failure to list the routes is returned wrapped.
\<close>

theorem GetRoutesByCIDR_string_prefix:
  "GetRoutesByCIDR n cidr =
     (case ListRoutes n of
        Inl e \<Rightarrow> Inl (Wrapped ''list network routes'' e)
      | Inr routes \<Rightarrow>
          Inr (filter (\<lambda>r. list_ex (\<lambda>destination. prefix cidr destination) (DestinationCidrs r))
                 routes))"
  by (simp add: GetRoutesByCIDR_def routes_by_cidr_filter split: sum.splits)

lemma ListRoutes_S6: "ListRoutes net_S6 = Inr [route_d_lan]"
  by (simp add: net_S6_def ListRoutes_def IterPrefix_def RoutesPrefix_def)

text \<open>
  The argument \<open>192.168.1\<close> is no CIDR at all, and it selects the route to
  \<open>192.168.10.0/24\<close>.
\<close>

theorem GetRoutesByCIDR_string_prefix_witness:
  "GetRoutesByCIDR net_S6 ''192.168.1'' = Inr [route_d_lan] \<and>
   DestinationCidrs route_d_lan = [''192.168.10.0/24'']"
  using GetRoutesByCIDR_string_prefix [of net_S6 "''192.168.1''"]
  by (simp add: ListRoutes_S6) (simp add: route_d_lan_def)


subsection \<open>FilterGraph\<close>

lemma keys_simps [simp]:
  "keys [] = {}"
  "keys (kv # m) = insert (fst kv) (keys m)"
  "keys (AList.update k v m) = insert k (keys m)"
  "keys (AList.delete k m) = keys m - {k}"
  "keys (AList.map_entry k f m) = keys m"
  by (auto simp: keys_def AList.dom_update AList.dom_map_entry AList.delete_eq)

lemma keys_map_of: "k \<in> keys m \<longleftrightarrow> map_of m k \<noteq> None"
  by (simp add: keys_def map_of_eq_None_iff)

lemma cidrs_allowed_True:
  "cidrs_allowed n acls thisNode dst cidrs = Inr True \<Longrightarrow> cidr \<in> set cidrs \<Longrightarrow>
     \<exists>a. route_action n thisNode dst cidr = Inr a \<and> Accept n acls a"
  by (induction cidrs) (auto split: sum.splits if_splits)

lemma routes_allowed_True:
  "routes_allowed n acls thisNode dst routes = Inr True \<Longrightarrow> r \<in> set routes \<Longrightarrow>
     cidr \<in> set (DestinationCidrs r) \<Longrightarrow>
     \<exists>a. route_action n thisNode dst cidr = Inr a \<and> Accept n acls a"
  by (induction routes) (auto split: sum.splits if_splits dest: cidrs_allowed_True)

lemma rejected_not_allowed:
  assumes "rejected n acls thisNode D" and "GetRoutesByNode n D = Inr routes"
  shows "routes_allowed n acls thisNode D routes \<noteq> Inr True"
proof
  assume ok: "routes_allowed n acls thisNode D routes = Inr True"
  from assms(1) obtain all r cidr a where
    l: "ListRoutes n = Inr all" and r: "r \<in> set all" "Node r = D"
    and c: "cidr \<in> set (DestinationCidrs r)"
    and a: "route_action n thisNode D cidr = Inr a" "\<not> Accept n acls a"
    unfolding rejected_def by blast
  from assms(2) l have "routes = filter (\<lambda>r. Node r = D) all"
    by (simp add: GetRoutesByNode_def)
  with r have "r \<in> set routes" by simp
  from routes_allowed_True [OF ok this c] a show False by simp
qed

lemma filter_peer_keys:
  assumes "filter_peer n acls thisNode pe row = Inr row'"
    and "rejected n acls thisNode D" and "D \<noteq> Id thisNode"
    and "D \<notin> keys row"
  shows "D \<notin> keys row'"
proof (cases pe)
  case (Pair peerID e)
  show ?thesis
  proof (cases "peerID = D")
    case True
    with assms Pair rejected_not_allowed [OF assms(2)] show ?thesis
      by (auto simp: filter_peer_def split: sum.splits if_splits)
  next
    case False
    with assms Pair show ?thesis
      by (auto simp: filter_peer_def split: sum.splits if_splits)
  qed
qed

lemma filter_peers_keys:
  "filter_peers n acls thisNode edges row = Inr row' \<Longrightarrow> rejected n acls thisNode D \<Longrightarrow>
     D \<noteq> Id thisNode \<Longrightarrow> D \<notin> keys row \<Longrightarrow> D \<notin> keys row'"
proof (induction edges arbitrary: row)
  case Nil
  then show ?case by simp
next
  case (Cons pe edges)
  from Cons.prems(1) obtain row1 where
    1: "filter_peer n acls thisNode pe row = Inr row1"
    and 2: "filter_peers n acls thisNode edges row1 = Inr row'"
    by (auto split: sum.splits)
  from filter_peer_keys [OF 1 Cons.prems(2,3,4)] have "D \<notin> keys row1" .
  from Cons.IH [OF 2 Cons.prems(2,3) this] show ?case .
qed

lemma rows_withoutD: "rows_without D m \<Longrightarrow> (k, row) \<in> set m \<Longrightarrow> (D, e) \<notin> set row"
proof
  assume "rows_without D m" "(k, row) \<in> set m" "(D, e) \<in> set row"
  then have "D \<notin> keys row" "fst (D, e) \<in> fst ` set row"
    by (force simp: rows_without_def list_all_iff)+
  then show False by (simp add: keys_def)
qed

lemma rows_without_update:
  "rows_without D m \<Longrightarrow> D \<notin> keys row \<Longrightarrow> rows_without D (AList.update k row m)"
  by (induction m) (auto simp: rows_without_def)

lemma rows_without_row_of:
  "rows_without D m \<Longrightarrow> D \<notin> keys (row_of m k)"
  by (induction m) (auto simp: rows_without_def row_of_def)

lemma filter_row_without:
  assumes "filter_row n acls thisNode full node flt = Inr flt'"
    and "rejected n acls thisNode D" and "D \<noteq> Id thisNode" and "rows_without D flt"
  shows "rows_without D flt'"
proof (cases "map_of full node")
  case None
  with assms show ?thesis by (simp add: filter_row_def)
next
  case (Some edges)
  with assms(1) obtain row where
    1: "filter_peers n acls thisNode edges (row_of flt node) = Inr row"
    and 2: "flt' = AList.update node row flt"
    by (auto simp: filter_row_def split: sum.splits)
  from filter_peers_keys [OF 1 assms(2,3) rows_without_row_of [OF assms(4)]]
  have "D \<notin> keys row" .
  with assms(4) 2 show ?thesis by (simp add: rows_without_update)
qed

lemma filter_row_keys:
  "filter_row n acls thisNode full node flt = Inr flt' \<Longrightarrow> node \<in> keys flt \<Longrightarrow>
     keys flt' = keys flt"
  by (auto simp: filter_row_def split: option.splits sum.splits)

lemma filter_rows_keys:
  "filter_rows n acls thisNode full ks flt = Inr flt' \<Longrightarrow> set ks \<subseteq> keys flt \<Longrightarrow>
     keys flt' = keys flt"
proof (induction ks arbitrary: flt)
  case Nil
  then show ?case by simp
next
  case (Cons node ks)
  from Cons.prems(1) obtain flt1 where
    1: "filter_row n acls thisNode full node flt = Inr flt1"
    and 2: "filter_rows n acls thisNode full ks flt1 = Inr flt'"
    by (auto split: sum.splits)
  from filter_row_keys [OF 1] Cons.prems(2) have k: "keys flt1 = keys flt" by simp
  with Cons.IH [OF 2] Cons.prems(2) show ?case by simp
qed

lemma filter_rows_without:
  "filter_rows n acls thisNode full ks flt = Inr flt' \<Longrightarrow> rejected n acls thisNode D \<Longrightarrow>
     D \<noteq> Id thisNode \<Longrightarrow> rows_without D flt \<Longrightarrow> rows_without D flt'"
proof (induction ks arbitrary: flt)
  case Nil
  then show ?case by simp
next
  case (Cons node ks)
  from Cons.prems(1) obtain flt1 where
    1: "filter_row n acls thisNode full node flt = Inr flt1"
    and 2: "filter_rows n acls thisNode full ks flt1 = Inr flt'"
    by (auto split: sum.splits)
  from filter_row_without [OF 1 Cons.prems(2,3,4)] have "rows_without D flt1" .
  from Cons.IH [OF 2 Cons.prems(2,3) this] show ?case .
qed


lemma filtered_delete_edge [simp]:
  "filtered (delete_edge obs k st) = AList.map_entry obs (AList.delete k) (filtered st)"
  by (simp add: delete_edge_def)

lemma filtered_make_row [simp]:
  "filtered (make_row obs k st) = AList.update k [] (filtered st)"
  by (simp add: make_row_def)

lemma fresh_rows_map_entry:
  "fresh_rows obs m \<Longrightarrow> fresh_rows obs (AList.map_entry obs f m)"
  unfolding fresh_rows_def
  by (induction m) (auto simp: AList.distinct_map_entry AList.dom_map_entry)

lemma fresh_rows_update:
  "fresh_rows obs m \<Longrightarrow> fresh_rows obs (AList.update k [] m)"
  unfolding fresh_rows_def
  by (induction m) (auto simp: AList.distinct_update AList.dom_update)

lemma rows_without_map_entry:
  "rows_without D m \<Longrightarrow> rows_without D (AList.map_entry obs (AList.delete k) m)"
  by (induction m) (auto simp: rows_without_def)

lemma rows_without_fresh:
  "distinct (map fst m) \<Longrightarrow> list_all (\<lambda>kr. snd kr = []) m \<Longrightarrow> rows_without D m"
  by (induction m) (auto simp: rows_without_def)

lemma fresh_rows_Cons_this:
  assumes "fresh_rows obs ((obs, row) # m)"
  shows "list_all (\<lambda>kr. snd kr = []) m"
proof -
  have "fst kr \<noteq> obs" if "kr \<in> set m" for kr
  proof
    assume "fst kr = obs"
    with that have "obs \<in> fst ` set m" by (metis imageI)
    with assms show False by (simp add: fresh_rows_def)
  qed
  with assms show ?thesis by (simp add: fresh_rows_def list_all_iff)
qed

lemma rows_without_delete_this:
  "fresh_rows obs m \<Longrightarrow> rows_without D (AList.map_entry obs (AList.delete D) m)"
proof (induction m)
  case Nil
  then show ?case by (simp add: rows_without_def)
next
  case (Cons kr m)
  obtain k row where kr: "kr = (k, row)" by (cases kr)
  show ?case
  proof (cases "k = obs")
    case True
    with Cons.prems kr have "list_all (\<lambda>kr. snd kr = []) m"
      by (auto dest: fresh_rows_Cons_this)
    then have "rows_without D m"
      by (auto simp: rows_without_def list_all_iff)
    with True kr show ?thesis by (simp add: rows_without_def)
  next
    case False
    with Cons.prems kr have "row = []" "fresh_rows obs m"
      by (auto simp: fresh_rows_def)
    with False kr Cons.IH show ?thesis by (simp add: rows_without_def)
  qed
qed

lemma filter_node_fresh:
  "filter_node n acls thisNode nid st = Inr st' \<Longrightarrow> fresh_rows (Id thisNode) (filtered st) \<Longrightarrow>
     fresh_rows (Id thisNode) (filtered st')"
  by (auto simp: filter_node_def fresh_rows_map_entry fresh_rows_update
      split: if_splits sum.splits)

lemma filter_node_keys:
  "filter_node n acls thisNode nid st = Inr st' \<Longrightarrow> keys (filtered st) \<subseteq> keys (filtered st')"
  by (auto simp: filter_node_def split: if_splits sum.splits)

lemma filter_node_not_key:
  assumes "filter_node n acls thisNode nid st = Inr st'"
    and "rejected n acls thisNode D" and "D \<notin> keys (filtered st)"
  shows "D \<notin> keys (filtered st')"
  using assms rejected_not_allowed [OF assms(2)]
  by (auto simp: filter_node_def split: if_splits sum.splits)

lemma filter_node_without:
  "filter_node n acls thisNode nid st = Inr st' \<Longrightarrow> rows_without D (filtered st) \<Longrightarrow>
     rows_without D (filtered st')"
  by (auto simp: filter_node_def rows_without_map_entry rows_without_update
      split: if_splits sum.splits)

lemma filter_node_visit:
  assumes "filter_node n acls thisNode D st = Inr st'"
    and "rejected n acls thisNode D" and "D \<noteq> Id thisNode"
    and "\<forall>node. Get n D = Inr node \<longrightarrow> Id node = D"
    and "fresh_rows (Id thisNode) (filtered st)"
  shows "rows_without D (filtered st')"
  using assms rejected_not_allowed [OF assms(2)]
  by (auto simp: filter_node_def rows_without_delete_this split: if_splits sum.splits)

lemma filter_nodes_without:
  assumes "rejected n acls thisNode D" and "D \<noteq> Id thisNode"
    and "\<forall>node. Get n D = Inr node \<longrightarrow> Id node = D"
  shows "filter_nodes n acls thisNode nids st = Inr st' \<Longrightarrow>
     fresh_rows (Id thisNode) (filtered st) \<Longrightarrow> D \<notin> keys (filtered st) \<Longrightarrow>
     D \<in> set nids \<or> rows_without D (filtered st) \<Longrightarrow>
     D \<notin> keys (filtered st') \<and> rows_without D (filtered st')"
proof (induction nids arbitrary: st)
  case Nil
  then show ?case by simp
next
  case (Cons nid nids)
  from Cons.prems(1) obtain st1 where
    1: "filter_node n acls thisNode nid st = Inr st1"
    and 2: "filter_nodes n acls thisNode nids st1 = Inr st'"
    by (auto split: sum.splits)
  have f: "fresh_rows (Id thisNode) (filtered st1)"
    using filter_node_fresh [OF 1 Cons.prems(2)] .
  have k: "D \<notin> keys (filtered st1)"
    using filter_node_not_key [OF 1 assms(1) Cons.prems(3)] .
  have "D \<in> set nids \<or> rows_without D (filtered st1)"
  proof (cases "nid = D")
    case True
    with filter_node_visit [OF _ assms Cons.prems(2)] 1 show ?thesis by simp
  next
    case False
    with Cons.prems(4) filter_node_without [OF 1] show ?thesis by auto
  qed
  from Cons.IH [OF 2 f k this] show ?case .
qed

lemma filter_nodes_keys:
  "filter_nodes n acls thisNode nids st = Inr st' \<Longrightarrow> keys (filtered st) \<subseteq> keys (filtered st')"
proof (induction nids arbitrary: st)
  case Nil
  then show ?case by simp
next
  case (Cons nid nids)
  from Cons.prems obtain st1 where
    1: "filter_node n acls thisNode nid st = Inr st1"
    and 2: "filter_nodes n acls thisNode nids st1 = Inr st'"
    by (auto split: sum.splits)
  from filter_node_keys [OF 1] Cons.IH [OF 2] show ?case by blast
qed

text \<open>
  C2. Let \<open>FilterGraph\<close> return a map for an observer, and let \<open>D\<close> be another vertex of
  the graph (resolved under its own id) that advertises a route one of whose destination
  CIDRs the ACLs do not accept for the observer. Then \<open>D\<close> has no row in the filtered map
  and no row of the filtered map has an edge to \<open>D\<close>, whatever \<open>AllowNodesToCommunicate\<close>
  says of the observer and \<open>D\<close>.
\<close>

theorem FilterGraph_drops_rejected:
  assumes res: "FilterGraph n thisNodeID = Inr flt"
    and obs: "Get n thisNodeID = Inr thisNode"
    and acls: "ListNetworkACLs n = Inr acls0" "Expand n acls0 = Inr acls"
    and full: "BuildAdjacencyMap n = Inr full"
    and routes: "ListRoutes n = Inr routes"
    and route: "r \<in> set routes" "Node r = D" "cidr \<in> set (DestinationCidrs r)"
    and action: "route_action n thisNode D cidr = Inr a" "\<not> Accept n acls a"
    and other: "D \<noteq> Id thisNode"
    and coherent: "\<forall>node. Get n D = Inr node \<longrightarrow> Id node = D"
    and vertex: "D \<in> fst ` set full"
  shows "D \<notin> fst ` set flt \<and> (\<forall>(k, row) \<in> set flt. D \<notin> fst ` set row)"
proof (cases "acls0 = []")
  case True
  with res obs acls show ?thesis by (simp add: FilterGraph_def)
next
  case False
  with res obs acls full obtain st where
    1: "filter_nodes n acls thisNode (map fst full)
             \<lparr>fullMap = full,
              filtered = [(Id thisNode, row_of full (Id thisNode))],
              shared = (map_of full (Id thisNode) \<noteq> None)\<rparr> = Inr st"
    and 2: "filter_rows n acls thisNode (fullMap st) (map fst (filtered st)) (filtered st) = Inr flt"
    by (auto simp: FilterGraph_def split: sum.splits)
  have rej: "rejected n acls thisNode D"
    unfolding rejected_def using routes route action by blast
  have "D \<notin> keys (filtered st) \<and> rows_without D (filtered st)"
    by (rule filter_nodes_without [OF rej other coherent 1])
       (use other vertex in \<open>auto simp: fresh_rows_def\<close>)
  moreover have "keys flt = keys (filtered st)"
    by (rule filter_rows_keys [OF 2]) (simp add: keys_def)
  moreover have "rows_without D (filtered st) \<Longrightarrow> rows_without D flt"
    by (rule filter_rows_without [OF 2 rej other])
  ultimately have "D \<notin> keys flt" "rows_without D flt" by auto
  then show ?thesis
    by (auto simp: keys_def dest: rows_withoutD)
qed

lemma ListNetworkACLs_S6: "ListNetworkACLs net_S6 = Inr [''deny-lan'']"
  by (simp add: net_S6_def ListNetworkACLs_def IterPrefix_def NetworkACLsPrefix_def)

lemma ListNetworkACLs_no_acls: "ListNetworkACLs net_no_acls = Inr []"
  by (simp add: net_no_acls_def net_S6_def ListNetworkACLs_def IterPrefix_def
      NetworkACLsPrefix_def)

lemma FilterGraph_S6: "FilterGraph net_S6 ''A'' = Inr [(''A'', [])]"
  by code_simp

text \<open>
  Scenario S6: \<open>A\<close> and \<open>D\<close> may communicate, the route of \<open>D\<close> is rejected, and \<open>D\<close> is
  gone from the map filtered for \<open>A\<close>.
\<close>

theorem FilterGraph_drops_rejected_witness:
  "FilterGraph net_S6 ''A'' = Inr [(''A'', [])] \<and>
   AllowNodesToCommunicate net_S6 [''deny-lan''] (node_named ''A'') (node_named ''D'') \<and>
   \<not> Accept net_S6 [''deny-lan'']
       \<lparr>SrcNode = ''A'', SrcCidr = ''10.0.0.1/32'', DstNode = ''D'', DstCidr = ''192.168.10.0/24''\<rparr> \<and>
   ''D'' \<notin> fst ` set [(''A'', ([] :: unit Row))]"
proof -
  have g: "Get net_S6 ''A'' = Inr (node_named ''A'')"
    and e: "Expand net_S6 [''deny-lan''] = Inr [''deny-lan'']"
    and b: "BuildAdjacencyMap net_S6 = Inr [(''A'', [(''D'', ())]), (''D'', [])]"
    and r: "route_d_lan \<in> set [route_d_lan]" "Node route_d_lan = ''D''"
      "''192.168.10.0/24'' \<in> set (DestinationCidrs route_d_lan)"
    and a: "route_action net_S6 (node_named ''A'') ''D'' ''192.168.10.0/24'' =
        Inr \<lparr>SrcNode = ''A'', SrcCidr = ''10.0.0.1/32'', DstNode = ''D'', DstCidr = ''192.168.10.0/24''\<rparr>"
      "\<not> Accept net_S6 [''deny-lan'']
         \<lparr>SrcNode = ''A'', SrcCidr = ''10.0.0.1/32'', DstNode = ''D'', DstCidr = ''192.168.10.0/24''\<rparr>"
    and o: "''D'' \<noteq> Id (node_named ''A'')"
    and c: "\<forall>node. Get net_S6 ''D'' = Inr node \<longrightarrow> Id node = ''D''"
    and v: "''D'' \<in> fst ` set [(''A'', [(''D'', ())]), (''D'', [])]"
    and al: "AllowNodesToCommunicate net_S6 [''deny-lan''] (node_named ''A'') (node_named ''D'')"
    by (simp_all add: net_S6_def route_d_lan_def node_named_def route_action_def)
  from FilterGraph_drops_rejected
    [OF FilterGraph_S6 g ListNetworkACLs_S6 e b ListRoutes_S6 r a o c v] al a(2)
  show ?thesis by (simp add: FilterGraph_S6)
qed

lemma FilterGraph_observer_row:
  assumes "FilterGraph n thisNodeID = Inr flt"
    and "Get n thisNodeID = Inr thisNode"
    and "ListNetworkACLs n = Inr acls0" and "acls0 \<noteq> []"
  shows "Id thisNode \<in> keys flt"
proof -
  from assms obtain acls full st where
    1: "filter_nodes n acls thisNode (map fst full)
             \<lparr>fullMap = full,
              filtered = [(Id thisNode, row_of full (Id thisNode))],
              shared = (map_of full (Id thisNode) \<noteq> None)\<rparr> = Inr st"
    and 2: "filter_rows n acls thisNode (fullMap st) (map fst (filtered st)) (filtered st) = Inr flt"
    by (auto simp: FilterGraph_def split: sum.splits)
  from filter_nodes_keys [OF 1] have "Id thisNode \<in> keys (filtered st)" by simp
  moreover have "keys flt = keys (filtered st)"
    by (rule filter_rows_keys [OF 2]) (simp add: keys_def)
  ultimately show ?thesis by simp
qed

text \<open>
  C3, as amended. When at least one ACL is stored and \<open>FilterGraph\<close> returns without
  error, the returned map has a row keyed by the id of the resolved observer node, also
  when that row is empty. (With no ACL stored it returns the nil map, which has no row.)
\<close>

theorem FilterGraph_observer_row_present:
  assumes "FilterGraph n thisNodeID = Inr flt"
    and "Get n thisNodeID = Inr thisNode"
    and "ListNetworkACLs n = Inr acls0" and "acls0 \<noteq> []"
  shows "Id thisNode \<in> fst ` set flt"
  using FilterGraph_observer_row [OF assms] by (simp add: keys_def)

theorem FilterGraph_observer_row_present_witness:
  "FilterGraph net_S6 ''A'' = Inr [(''A'', [])] \<and>
   Get net_S6 ''A'' = Inr (node_named ''A'') \<and>
   ListNetworkACLs net_S6 = Inr [''deny-lan''] \<and>
   Id (node_named ''A'') \<in> fst ` set [(''A'', ([] :: unit Row))]"
proof -
  have g: "Get net_S6 ''A'' = Inr (node_named ''A'')"
    by (simp add: net_S6_def)
  from FilterGraph_observer_row_present [OF FilterGraph_S6 g ListNetworkACLs_S6]
  show ?thesis by (simp add: FilterGraph_S6 g ListNetworkACLs_S6)
qed

text \<open>
  C3 as stated fails: with no ACL stored, \<open>FilterGraph\<close> returns without error and the
  map it returns has no row for the observer \<open>A\<close>.
\<close>

theorem FilterGraph_no_acls_no_row:
  "\<not> (case FilterGraph net_no_acls ''A'' of
        Inl e \<Rightarrow> True
      | Inr flt \<Rightarrow> ''A'' \<in> fst ` set flt)"
proof -
  have "Get net_no_acls ''A'' = Inr (node_named ''A'')"
    by (simp add: net_no_acls_def net_S6_def)
  then have "FilterGraph net_no_acls ''A'' = Inr []"
    by (simp add: FilterGraph_def ListNetworkACLs_no_acls)
  then show ?thesis by simp
qed

text \<open>
  C4. With an empty list of ACLs, \<open>FilterGraph\<close> returns the empty adjacency map, for
  every graph and every observer that resolves; the only other outcome is the error of
  resolving the observer, which comes before the ACLs are read.
\<close>

theorem FilterGraph_no_acls_empty:
  assumes "ListNetworkACLs n = Inr []"
  shows "FilterGraph n thisNodeID =
     (case Get n thisNodeID of
        Inl e \<Rightarrow> Inl (Wrapped ''get node'' e)
      | Inr thisNode \<Rightarrow> Inr [])"
  using assms by (simp add: FilterGraph_def split: sum.splits)

theorem FilterGraph_no_acls_empty_witness:
  "ListNetworkACLs net_no_acls = Inr [] \<and>
   BuildAdjacencyMap net_no_acls = Inr [(''A'', [(''D'', ())]), (''D'', [])] \<and>
   FilterGraph net_no_acls ''A'' = Inr []"
proof -
  have "Get net_no_acls ''A'' = Inr (node_named ''A'')"
    and "BuildAdjacencyMap net_no_acls = Inr [(''A'', [(''D'', ())]), (''D'', [])]"
    by (simp_all add: net_no_acls_def net_S6_def)
  with FilterGraph_no_acls_empty [OF ListNetworkACLs_no_acls, of "''A''"]
  show ?thesis by (simp add: ListNetworkACLs_no_acls)
qed

section \<open>Properties of the peer reconciler\<close>

lemma set_append_private:
  "set (append_private v ips) = set ips \<union> private_prefixes v"
  by (auto simp: append_private_def private_prefixes_def Let_def)

lemma set_append_targets:
  "set (append_targets graph ours l ts ips) =
     set ips \<union> (\<Union>t \<in> {t \<in> fst ` set ts. t \<notin> fst ` set ours \<and> t \<noteq> l}.
                  private_prefixes (vertex_or_zero graph t))"
proof (induction ts arbitrary: ips)
  case Nil
  then show ?case by simp
next
  case (Cons te ts)
  obtain t e where te: "te = (t, e)" by (cases te)
  have k: "map_of ours t = None \<longleftrightarrow> t \<notin> fst ` set ours"
    by (simp add: map_of_eq_None_iff)
  show ?case
    unfolding te by (auto simp: Cons.IH k set_append_private)
qed

lemma set_AllowedIPs_descendant_peer:
  "set (Peer.AllowedIPs (descendant_peer graph adj l ours (d, e))) =
     private_prefixes (vertex_or_zero graph d) \<union>
     (\<Union>t \<in> {t \<in> fst ` set (row_of adj (Target e)). t \<notin> fst ` set ours \<and> t \<noteq> l}.
        private_prefixes (vertex_or_zero graph t))"
  by (cases "row_of adj (Target e)")
     (simp_all add: descendant_peer_def Let_def set_append_private set_append_targets
        del: append_targets.simps)

lemma recording_apply: "recording fails peer w = (fails peer, w @ [peer])"
  by (simp add: recording_def)

lemma put_descendants_recording:
  "put_descendants (recording fails) graph adj l ours ds w = (None, w') \<Longrightarrow>
     w' = w @ map (descendant_peer graph adj l ours) ds"
proof (induction ds arbitrary: w)
  case Nil
  then show ?case by simp
next
  case (Cons de ds)
  let ?p = "descendant_peer graph adj l ours de"
  show ?case
  proof (cases "fails ?p")
    case None
    then have r: "recording fails ?p w = (None, w @ [?p])"
      by (simp add: recording_apply)
    from Cons.prems have
      "put_descendants (recording fails) graph adj l ours ds (w @ [?p]) = (None, w')"
      by (simp only: put_descendants.simps r prod.case option.case)
    from Cons.IH [OF this] show ?thesis by simp
  next
    case (Some err)
    then have r: "recording fails ?p w = (Some err, w @ [?p])"
      by (simp add: recording_apply)
    from Cons.prems have "(Some (Wrapped ''put peer'' err), w @ [?p]) = (None, w')"
      by (simp only: put_descendants.simps r prod.case option.case)
    then show ?thesis by simp
  qed
qed

lemma walkMeshDescendants_recording:
  assumes "AdjacencyMap graph = Inr adj"
    and "walkMeshDescendants (recording fails) l graph [] = (None, peers)"
  shows "peers = map (descendant_peer graph adj l (row_of adj l)) (row_of adj l)"
proof (cases "row_of adj l")
  case Nil
  with assms show ?thesis by (simp add: walkMeshDescendants_def)
next
  case (Cons de ds)
  with assms have
    "put_descendants (recording fails) graph adj l (row_of adj l) (row_of adj l) [] = (None, peers)"
    by (simp add: walkMeshDescendants_def Let_def del: put_descendants.simps)
  from put_descendants_recording [OF this] show ?thesis by simp
qed

text \<open>
  C1. When the reconciler of the local node \<open>l\<close> returns without error, it has put
  exactly one WireGuard peer per direct descendant \<open>d\<close> of \<open>l\<close> in the adjacency map,
  in the order of the row. The allowed IPs of the peer of \<open>d\<close> are the valid ones among the
  private IPv4 and IPv6 prefixes of \<open>d\<close>, and of every target \<open>t\<close> adjacent to \<open>d\<close> that
  is neither a direct descendant of \<open>l\<close> nor \<open>l\<close> itself. So the valid private IPv4 of
  every such grand-descendant is among the allowed IPs of the peer of its parent. (The
  edge stored under the key \<open>d\<close> has the target \<open>d\<close>, as in every adjacency map of the
  graph library.)
\<close>

theorem walkMeshDescendants_allowed_ips:
  assumes adj: "AdjacencyMap graph = Inr adj"
    and walk: "walkMeshDescendants (recording fails) l graph [] = (None, peers)"
    and wf: "\<forall>(d, e) \<in> set (row_of adj l). Target e = d"
  shows "list_all2
      (\<lambda>(d, e) peer.
         Peer.ID peer = Node.ID (vertex_or_zero graph d) \<and>
         Peer.PublicKey peer = Node.PublicKey (vertex_or_zero graph d) \<and>
         set (Peer.AllowedIPs peer) =
           {p \<in> {Node.PrivateIPv4 (vertex_or_zero graph d), Node.PrivateIPv6 (vertex_or_zero graph d)}.
              IsValid p} \<union>
           (\<Union>t \<in> {t \<in> fst ` set (row_of adj d). t \<notin> fst ` set (row_of adj l) \<and> t \<noteq> l}.
              {p \<in> {Node.PrivateIPv4 (vertex_or_zero graph t), Node.PrivateIPv6 (vertex_or_zero graph t)}.
                 IsValid p}))
      (row_of adj l) peers \<and>
    (\<forall>(d, e) \<in> set (row_of adj l). \<forall>g \<in> fst ` set (row_of adj d).
       g \<notin> fst ` set (row_of adj l) \<longrightarrow> g \<noteq> l \<longrightarrow>
       IsValid (Node.PrivateIPv4 (vertex_or_zero graph g)) \<longrightarrow>
       (\<exists>peer \<in> set peers. Peer.ID peer = Node.ID (vertex_or_zero graph d) \<and>
          Node.PrivateIPv4 (vertex_or_zero graph g) \<in> set (Peer.AllowedIPs peer)))"
proof -
  have peers: "peers = map (descendant_peer graph adj l (row_of adj l)) (row_of adj l)"
    using walkMeshDescendants_recording [OF adj walk] .
  have "\<forall>de \<in> set (row_of adj l).
      (case de of (d, e) \<Rightarrow> \<lambda>peer.
         Peer.ID peer = Node.ID (vertex_or_zero graph d) \<and>
         Peer.PublicKey peer = Node.PublicKey (vertex_or_zero graph d) \<and>
         set (Peer.AllowedIPs peer) =
           {p \<in> {Node.PrivateIPv4 (vertex_or_zero graph d), Node.PrivateIPv6 (vertex_or_zero graph d)}.
              IsValid p} \<union>
           (\<Union>t \<in> {t \<in> fst ` set (row_of adj d). t \<notin> fst ` set (row_of adj l) \<and> t \<noteq> l}.
              {p \<in> {Node.PrivateIPv4 (vertex_or_zero graph t), Node.PrivateIPv6 (vertex_or_zero graph t)}.
                 IsValid p}))
        (descendant_peer graph adj l (row_of adj l) de)"
  proof
    fix de assume de: "de \<in> set (row_of adj l)"
    obtain d e where p: "de = (d, e)" by (cases de)
    with de wf have t: "Target e = d" by auto
    have "Peer.ID (descendant_peer graph adj l (row_of adj l) (d, e)) = Node.ID (vertex_or_zero graph d)"
      "Peer.PublicKey (descendant_peer graph adj l (row_of adj l) (d, e)) = Node.PublicKey (vertex_or_zero graph d)"
      by (simp_all add: descendant_peer_def Let_def)
    with set_AllowedIPs_descendant_peer [of graph adj l "row_of adj l" d e] t
    show "(case de of (d, e) \<Rightarrow> \<lambda>peer.
         Peer.ID peer = Node.ID (vertex_or_zero graph d) \<and>
         Peer.PublicKey peer = Node.PublicKey (vertex_or_zero graph d) \<and>
         set (Peer.AllowedIPs peer) =
           {p \<in> {Node.PrivateIPv4 (vertex_or_zero graph d), Node.PrivateIPv6 (vertex_or_zero graph d)}.
              IsValid p} \<union>
           (\<Union>t \<in> {t \<in> fst ` set (row_of adj d). t \<notin> fst ` set (row_of adj l) \<and> t \<noteq> l}.
              {p \<in> {Node.PrivateIPv4 (vertex_or_zero graph t), Node.PrivateIPv6 (vertex_or_zero graph t)}.
                 IsValid p}))
        (descendant_peer graph adj l (row_of adj l) de)"
      unfolding p by (simp add: private_prefixes_def)
  qed
  then have 1: "list_all2
      (\<lambda>(d, e) peer.
         Peer.ID peer = Node.ID (vertex_or_zero graph d) \<and>
         Peer.PublicKey peer = Node.PublicKey (vertex_or_zero graph d) \<and>
         set (Peer.AllowedIPs peer) =
           {p \<in> {Node.PrivateIPv4 (vertex_or_zero graph d), Node.PrivateIPv6 (vertex_or_zero graph d)}.
              IsValid p} \<union>
           (\<Union>t \<in> {t \<in> fst ` set (row_of adj d). t \<notin> fst ` set (row_of adj l) \<and> t \<noteq> l}.
              {p \<in> {Node.PrivateIPv4 (vertex_or_zero graph t), Node.PrivateIPv6 (vertex_or_zero graph t)}.
                 IsValid p}))
      (row_of adj l) peers"
    unfolding peers by (simp add: list_all2_map2 list_all2_same)
  have 2: "\<exists>peer \<in> set peers. Peer.ID peer = Node.ID (vertex_or_zero graph d) \<and>
          Node.PrivateIPv4 (vertex_or_zero graph g) \<in> set (Peer.AllowedIPs peer)"
    if de: "(d, e) \<in> set (row_of adj l)" and g: "g \<in> fst ` set (row_of adj d)"
      "g \<notin> fst ` set (row_of adj l)" "g \<noteq> l" "IsValid (Node.PrivateIPv4 (vertex_or_zero graph g))"
    for d e g
  proof -
    let ?peer = "descendant_peer graph adj l (row_of adj l) (d, e)"
    from de wf have t: "Target e = d" by auto
    from de have "?peer \<in> set peers" unfolding peers by simp
    moreover have "Peer.ID ?peer = Node.ID (vertex_or_zero graph d)"
      by (simp add: descendant_peer_def Let_def)
    moreover have "Node.PrivateIPv4 (vertex_or_zero graph g) \<in> set (Peer.AllowedIPs ?peer)"
      unfolding set_AllowedIPs_descendant_peer t using g by (auto simp: private_prefixes_def)
    ultimately show ?thesis by blast
  qed
  from 1 2 show ?thesis by blast
qed

lemma AdjacencyMap_S1:
  "AdjacencyMap graph_S1 =
     Inr [(''A'', [(''B'', \<lparr>Source = ''A'', Target = ''B''\<rparr>)]),
          (''B'', [(''C'', \<lparr>Source = ''B'', Target = ''C''\<rparr>)]),
          (''C'', [])]"
  by (simp add: graph_S1_def)

lemma walk_S1:
  "walkMeshDescendants (recording (\<lambda>p. None)) ''A'' graph_S1 [] =
     (None, [\<lparr>Peer.ID = ''B'', Peer.PublicKey = ''key-B'', Peer.Endpoint = [],
              Peer.AllowedIPs = [\<lparr>prefix_String = ''10.0.0.2/32'', IsValid = True\<rparr>,
                            \<lparr>prefix_String = ''10.0.0.3/32'', IsValid = True\<rparr>]\<rparr>])"
  by code_simp

theorem walkMeshDescendants_allowed_ips_witness:
  "walkMeshDescendants (recording (\<lambda>p. None)) ''A'' graph_S1 [] =
     (None, [\<lparr>Peer.ID = ''B'', Peer.PublicKey = ''key-B'', Peer.Endpoint = [],
              Peer.AllowedIPs = [\<lparr>prefix_String = ''10.0.0.2/32'', IsValid = True\<rparr>,
                            \<lparr>prefix_String = ''10.0.0.3/32'', IsValid = True\<rparr>]\<rparr>]) \<and>
   Node.PrivateIPv4 (vertex_or_zero graph_S1 ''C'') = \<lparr>prefix_String = ''10.0.0.3/32'', IsValid = True\<rparr>"
proof -
  have wf: "\<forall>(d, e) \<in> set (row_of [(''A'', [(''B'', \<lparr>Source = ''A'', Target = ''B''\<rparr>)]),
          (''B'', [(''C'', \<lparr>Source = ''B'', Target = ''C''\<rparr>)]),
          (''C'', [])] ''A''). Target e = d"
    by (simp add: row_of_def)
  have "Node.PrivateIPv4 (vertex_or_zero graph_S1 ''C'') = \<lparr>prefix_String = ''10.0.0.3/32'', IsValid = True\<rparr>"
    by (simp add: vertex_or_zero_def graph_S1_def host_def)
  with walkMeshDescendants_allowed_ips [OF AdjacencyMap_S1 walk_S1 wf] walk_S1
  show ?thesis by simp
qed

text \<open>
  C8. With a WireGuard interface configured, \<open>RefreshWireguardPeers\<close> returns the error
  of building the mesh graph to its caller (after logging it), and returns nil when
  \<open>walkMeshDescendants\<close> fails, after logging that error.
\<close>

theorem RefreshWireguardPeers_swallows_walk_error:
  assumes "wg s = Some w"
  shows "(build = Inl err \<longrightarrow>
            RefreshWireguardPeers PutPeer build s = (Some err, s\<lparr>log := log s @ [(''build dag'', err)]\<rparr>)) \<and>
         (build = Inr dag \<longrightarrow> walkMeshDescendants PutPeer (nodeID s) dag w = (Some err, w') \<longrightarrow>
            RefreshWireguardPeers PutPeer build s =
              (None, s\<lparr>wg := Some w', log := log s @ [(''walk mesh descendants'', err)]\<rparr>))"
  using assms by (simp add: RefreshWireguardPeers_def)

lemma walk_S1_failing:
  "walkMeshDescendants (recording (\<lambda>p. Some (Err ''device busy''))) ''A'' graph_S1 [] =
     (Some (Wrapped ''put peer'' (Err ''device busy'')),
      [\<lparr>Peer.ID = ''B'', Peer.PublicKey = ''key-B'', Peer.Endpoint = [],
              Peer.AllowedIPs = [\<lparr>prefix_String = ''10.0.0.2/32'', IsValid = True\<rparr>,
                            \<lparr>prefix_String = ''10.0.0.3/32'', IsValid = True\<rparr>]\<rparr>])"
  by code_simp

theorem RefreshWireguardPeers_swallows_walk_error_witness:
  "fst (RefreshWireguardPeers (recording (\<lambda>p. Some (Err ''device busy''))) (Inr graph_S1)
     \<lparr>nodeID = ''A'', wg = Some [], log = []\<rparr>) = None \<and>
   log (snd (RefreshWireguardPeers (recording (\<lambda>p. Some (Err ''device busy''))) (Inr graph_S1)
     \<lparr>nodeID = ''A'', wg = Some [], log = []\<rparr>)) =
     [(''walk mesh descendants'', Wrapped ''put peer'' (Err ''device busy''))] \<and>
   fst (RefreshWireguardPeers (recording (\<lambda>p. Some (Err ''device busy''))) (Inl (Err ''list peers''))
     \<lparr>nodeID = ''A'', wg = Some [], log = []\<rparr>) = Some (Err ''list peers'')"
proof -
  let ?s = "\<lparr>nodeID = ''A'', wg = Some ([] :: Peer list), log = []\<rparr>"
  have w: "wg ?s = Some []" by simp
  have n: "walkMeshDescendants (recording (\<lambda>p. Some (Err ''device busy''))) (nodeID ?s) graph_S1 [] =
     (Some (Wrapped ''put peer'' (Err ''device busy'')),
      [\<lparr>Peer.ID = ''B'', Peer.PublicKey = ''key-B'', Peer.Endpoint = [],
              Peer.AllowedIPs = [\<lparr>prefix_String = ''10.0.0.2/32'', IsValid = True\<rparr>,
                            \<lparr>prefix_String = ''10.0.0.3/32'', IsValid = True\<rparr>]\<rparr>])"
    using walk_S1_failing by simp
  from RefreshWireguardPeers_swallows_walk_error [OF w, of "Inr graph_S1" _ _ graph_S1] n
    RefreshWireguardPeers_swallows_walk_error [OF w, of "Inl (Err ''list peers'')" "Err ''list peers''"]
  show ?thesis by simp
qed

section \<open>Properties of Join\<close>

text \<open>
  C6. \<open>Join\<close> on a node that is not the leader returns the status error
  \<open>FailedPrecondition\<close> at once: the server and the store behind it are as they were.
\<close>

theorem Join_not_leader:
  assumes "\<not> store_IsLeader d (store s)"
  shows "Join d s req = (Inl (Status FailedPrecondition ''not leader''), s)"
  using assms by (simp add: Join_def)

theorem Join_not_leader_witness:
  "Join (registry_deps lib_S4) (server_S4\<lparr>store := registry_S4\<lparr>leader := False\<rparr>\<rparr>) rejoin_X =
     (Inl (Status FailedPrecondition ''not leader''),
      server_S4\<lparr>store := registry_S4\<lparr>leader := False\<rparr>\<rparr>)"
proof -
  have "\<not> store_IsLeader (registry_deps lib_S4)
      (store (server_S4\<lparr>store := registry_S4\<lparr>leader := False\<rparr>\<rparr>))"
    by (simp add: registry_deps_def)
  from Join_not_leader [OF this] show ?thesis .
qed

lemma load_ula_store: "load_ula d s = Inr s' \<Longrightarrow> store s' = store s"
  by (auto simp: load_ula_def split: if_splits sum.splits)

lemma validate_invalid:
  assumes "GetId req = [] \<or> (\<exists>err. wgtypes_ParseKey d (GetPublicKey req) = Inl err) \<or>
      (GetEndpoint req \<noteq> [] \<and> (\<exists>err. netip_ParseAddrPort d (GetEndpoint req) = Inl err))"
  shows "\<exists>err. validate d req = Inl err \<and> status_code err = Some InvalidArgument"
  using assms by (auto simp: validate_def split: sum.splits)

text \<open>
  C7, as amended. On the leader, a request with an empty id, with a public key that does
  not parse, or with a non-empty endpoint that does not parse never changes the store, so
  no peer is created or updated; and when the ULA prefix is there (cached, or read from
  the mesh state and parsed), the request is answered by a status error
  \<open>InvalidArgument\<close>.
\<close>

theorem Join_invalid_argument:
  assumes "store_IsLeader d (store s)"
    and "GetId req = [] \<or> (\<exists>err. wgtypes_ParseKey d (GetPublicKey req) = Inl err) \<or>
      (GetEndpoint req \<noteq> [] \<and> (\<exists>err. netip_ParseAddrPort d (GetEndpoint req) = Inl err))"
  shows "store (snd (Join d s req)) = store s \<and>
    (\<forall>s'. load_ula d s = Inr s' \<longrightarrow>
       (\<exists>err. Join d s req = (Inl err, s') \<and> status_code err = Some InvalidArgument))"
proof -
  from validate_invalid [OF assms(2)] obtain err where
    v: "validate d req = Inl err" "status_code err = Some InvalidArgument" by blast
  show ?thesis
  proof (cases "load_ula d s")
    case (Inl e)
    with assms(1) show ?thesis by (simp add: Join_def)
  next
    case (Inr s')
    with assms(1) v load_ula_store [OF Inr] show ?thesis by (simp add: Join_def)
  qed
qed

theorem Join_invalid_argument_witness:
  "Join (registry_deps lib_S4) server_S4 (rejoin_X\<lparr>GetId := []\<rparr>) =
     (Inl (Status InvalidArgument ''node id required''),
      server_S4\<lparr>ulaPrefix := \<lparr>prefix_String = ''fd00::/48'', IsValid = True\<rparr>\<rparr>) \<and>
   Join (registry_deps lib_S4) server_S4 (rejoin_X\<lparr>GetPublicKey := ''K''\<rparr>) =
     (Inl (Statusf InvalidArgument ''invalid public key'' (Err ''incorrect key size'')),
      server_S4\<lparr>ulaPrefix := \<lparr>prefix_String = ''fd00::/48'', IsValid = True\<rparr>\<rparr>) \<and>
   Join (registry_deps lib_S4) server_S4 (rejoin_X\<lparr>GetEndpoint := ''nowhere''\<rparr>) =
     (Inl (Statusf InvalidArgument ''invalid endpoint'' (Err ''not an ip:port'')),
      server_S4\<lparr>ulaPrefix := \<lparr>prefix_String = ''fd00::/48'', IsValid = True\<rparr>\<rparr>)"
proof -
  have l: "store_IsLeader (registry_deps lib_S4) (store server_S4)"
    by (simp add: registry_deps_def server_S4_def registry_S4_def)
  have u: "load_ula (registry_deps lib_S4) server_S4 =
      Inr (server_S4\<lparr>ulaPrefix := \<lparr>prefix_String = ''fd00::/48'', IsValid = True\<rparr>\<rparr>)"
    by code_simp
  have b1: "GetId (rejoin_X\<lparr>GetId := []\<rparr>) = [] \<or>
      (\<exists>err. wgtypes_ParseKey (registry_deps lib_S4) (GetPublicKey (rejoin_X\<lparr>GetId := []\<rparr>)) = Inl err) \<or>
      (GetEndpoint (rejoin_X\<lparr>GetId := []\<rparr>) \<noteq> [] \<and>
       (\<exists>err. netip_ParseAddrPort (registry_deps lib_S4) (GetEndpoint (rejoin_X\<lparr>GetId := []\<rparr>)) = Inl err))"
    by simp
  have b2: "GetId (rejoin_X\<lparr>GetPublicKey := ''K''\<rparr>) = [] \<or>
      (\<exists>err. wgtypes_ParseKey (registry_deps lib_S4) (GetPublicKey (rejoin_X\<lparr>GetPublicKey := ''K''\<rparr>)) = Inl err) \<or>
      (GetEndpoint (rejoin_X\<lparr>GetPublicKey := ''K''\<rparr>) \<noteq> [] \<and>
       (\<exists>err. netip_ParseAddrPort (registry_deps lib_S4) (GetEndpoint (rejoin_X\<lparr>GetPublicKey := ''K''\<rparr>)) = Inl err))"
    by (simp add: registry_deps_def lib_S4_def)
  have b3: "GetId (rejoin_X\<lparr>GetEndpoint := ''nowhere''\<rparr>) = [] \<or>
      (\<exists>err. wgtypes_ParseKey (registry_deps lib_S4) (GetPublicKey (rejoin_X\<lparr>GetEndpoint := ''nowhere''\<rparr>)) = Inl err) \<or>
      (GetEndpoint (rejoin_X\<lparr>GetEndpoint := ''nowhere''\<rparr>) \<noteq> [] \<and>
       (\<exists>err. netip_ParseAddrPort (registry_deps lib_S4) (GetEndpoint (rejoin_X\<lparr>GetEndpoint := ''nowhere''\<rparr>)) = Inl err))"
    by (simp add: registry_deps_def lib_S4_def)
  have e: "Join (registry_deps lib_S4) server_S4 (rejoin_X\<lparr>GetId := []\<rparr>) =
     (Inl (Status InvalidArgument ''node id required''),
      server_S4\<lparr>ulaPrefix := \<lparr>prefix_String = ''fd00::/48'', IsValid = True\<rparr>\<rparr>)"
    "Join (registry_deps lib_S4) server_S4 (rejoin_X\<lparr>GetPublicKey := ''K''\<rparr>) =
     (Inl (Statusf InvalidArgument ''invalid public key'' (Err ''incorrect key size'')),
      server_S4\<lparr>ulaPrefix := \<lparr>prefix_String = ''fd00::/48'', IsValid = True\<rparr>\<rparr>)"
    "Join (registry_deps lib_S4) server_S4 (rejoin_X\<lparr>GetEndpoint := ''nowhere''\<rparr>) =
     (Inl (Statusf InvalidArgument ''invalid endpoint'' (Err ''not an ip:port'')),
      server_S4\<lparr>ulaPrefix := \<lparr>prefix_String = ''fd00::/48'', IsValid = True\<rparr>\<rparr>)"
    by code_simp+
  from Join_invalid_argument [OF l b1] Join_invalid_argument [OF l b2]
    Join_invalid_argument [OF l b3] u e
  show ?thesis by simp
qed

text \<open>
  C7 as stated fails: the ULA prefix is loaded before the request is validated, so a
  leader that holds no valid prefix and finds none in the mesh state answers a request
  with an empty id by the status error \<open>Internal\<close>.
\<close>

theorem Join_invalid_argument_without_ula:
  "store_IsLeader (registry_deps lib_S4) (store server_no_ula) \<and>
   GetId (rejoin_X\<lparr>GetId := []\<rparr>) = [] \<and>
   Join (registry_deps lib_S4) server_no_ula (rejoin_X\<lparr>GetId := []\<rparr>) =
     (Inl (Statusf Internal ''failed to get ULA prefix'' (Sentinel ''sql.ErrNoRows'')),
      server_no_ula) \<and>
   status_code (Statusf Internal ''failed to get ULA prefix'' (Sentinel ''sql.ErrNoRows'')) =
     Some Internal"
proof -
  have "store_IsLeader (registry_deps lib_S4) (store server_no_ula)"
    by (simp add: registry_deps_def server_no_ula_def registry_S4_def)
  moreover have "load_ula (registry_deps lib_S4) server_no_ula =
      Inl (Statusf Internal ''failed to get ULA prefix'' (Sentinel ''sql.ErrNoRows''))"
    by (simp add: load_ula_def registry_deps_def server_no_ula_def registry_S4_def
        GetULAPrefix_def zero_Prefix_def)
  ultimately show ?thesis by (simp add: Join_def)
qed

lemma merge_peer_eq:
  "merge_peer peer publicKey endpoint req =
     peer\<lparr>peers_Node.PublicKey := publicKey, peers_Node.GRPCPort := GetGrpcPort req,
          peers_Node.RaftPort := GetRaftPort req, peers_Node.Endpoint := endpoint,
          peers_Node.AllowedIPs := GetAllowedIps req,
          peers_Node.AvailableZones := GetAvailableZones req\<rparr>"
  by (cases peer) (simp add: merge_peer_def Let_def)

lemma merge_peer_idem:
  "merge_peer (merge_peer peer publicKey endpoint req\<lparr>UpdatedAt := t, ASN := a\<rparr>) publicKey endpoint req =
     merge_peer peer publicKey endpoint req\<lparr>UpdatedAt := t, ASN := a\<rparr>"
  by (cases peer) (simp add: merge_peer_eq)















section \<open>Properties of the join loop\<close>

lemma incr64_small: "0 \<le> i \<Longrightarrow> i < 2 ^ 63 - 1 \<Longrightarrow> incr64 i = i + 1"
  by (simp add: incr64_def)

lemma join_loop_ends:
  assumes "MaxJoinRetries < 2 ^ 63 - 1"
    and "\<not> retried (attempts k)" and "int k \<le> MaxJoinRetries"
  shows "n \<le> k \<Longrightarrow> \<forall>i. n \<le> i \<and> i < k \<longrightarrow> retried (attempts i) \<Longrightarrow>
     join_loop attempts MaxJoinRetries (int n) n slept =
       Some (ends (attempts k), Suc k, slept + (k - n))"
proof (induction "k - n" arbitrary: n slept)
  case 0
  then have "n = k" by simp
  with assms(2,3) show ?case
    by (subst join_loop.simps) (auto split: attempt.splits option.splits)
next
  case (Suc m)
  then have n: "n < k" "retried (attempts n)" by auto
  with assms(1,3) have i: "incr64 (int n) = int (Suc n)"
    by (simp add: incr64_small)
  from Suc have "join_loop attempts MaxJoinRetries (int (Suc n)) (Suc n) (Suc slept) =
       Some (ends (attempts k), Suc k, Suc slept + (k - Suc n))"
    by (intro Suc.hyps) auto
  with n assms(3) i show ?case
    by (subst join_loop.simps) (auto split: attempt.splits option.splits)
qed

lemma join_loop_exhausted:
  assumes "MaxJoinRetries < 2 ^ 63 - 1"
  shows "n \<le> nat (MaxJoinRetries + 1) \<Longrightarrow>
     \<forall>i. n \<le> i \<and> i < nat (MaxJoinRetries + 1) \<longrightarrow> retried (attempts i) \<Longrightarrow>
     join_loop attempts MaxJoinRetries (int n) n slept =
       Some (Exhausted, nat (MaxJoinRetries + 1), slept + (nat (MaxJoinRetries + 1) - n))"
proof (induction "nat (MaxJoinRetries + 1) - n" arbitrary: n slept)
  case 0
  then have "n = nat (MaxJoinRetries + 1)" by simp
  then have "\<not> int n \<le> MaxJoinRetries" by auto
  with \<open>n = nat (MaxJoinRetries + 1)\<close> show ?case
    by (subst join_loop.simps) simp
next
  case (Suc m)
  then have n: "n < nat (MaxJoinRetries + 1)" "retried (attempts n)" by auto
  then have le: "int n \<le> MaxJoinRetries" by auto
  with assms have i: "incr64 (int n) = int (Suc n)"
    by (simp add: incr64_small)
  from Suc have "join_loop attempts MaxJoinRetries (int (Suc n)) (Suc n) (Suc slept) =
       Some (Exhausted, nat (MaxJoinRetries + 1), Suc slept + (nat (MaxJoinRetries + 1) - Suc n))"
    by (intro Suc.hyps) auto
  with n le i show ?case
    by (subst join_loop.simps) (auto split: attempt.splits option.splits)
qed

lemma retried_iff: "retried a \<longleftrightarrow> failed a \<and> ctx_Err a = None"
  by (cases a) auto

text \<open>
  C9. Let \<open>MaxJoinRetries\<close> be less than the largest 64-bit integer (at which
  \<open>tries <= MaxJoinRetries\<close> can never fail). The loop ends after at most
  \<open>MaxJoinRetries + 1\<close> passes, the first attempt and \<open>MaxJoinRetries\<close> retries. Every
  pass that fails, at the dial or at the RPC, with no context error is followed by a sleep
  of one second and, while passes remain, by another pass. The loop ends before that at
  the first pass that is answered, with the response, and at the first failed pass that
  finds a context error, which is returned with no further sleep.
\<close>

theorem join_loop_bounded:
  assumes "MaxJoinRetries < 2 ^ 63 - 1"
  shows "(\<forall>k. int k \<le> MaxJoinRetries \<longrightarrow>
            (\<forall>i < k. failed (attempts i) \<and> ctx_Err (attempts i) = None) \<longrightarrow>
            (\<forall>resp. attempts k = JoinOK resp \<longrightarrow>
               join_loop attempts MaxJoinRetries 0 0 0 = Some (Joined resp, Suc k, k)) \<and>
            (\<forall>e. failed (attempts k) \<and> ctx_Err (attempts k) = Some e \<longrightarrow>
               join_loop attempts MaxJoinRetries 0 0 0 = Some (Cancelled e, Suc k, k))) \<and>
         ((\<forall>i < nat (MaxJoinRetries + 1). failed (attempts i) \<and> ctx_Err (attempts i) = None) \<longrightarrow>
            join_loop attempts MaxJoinRetries 0 0 0 =
              Some (Exhausted, nat (MaxJoinRetries + 1), nat (MaxJoinRetries + 1)))"
proof (intro conjI allI impI)
  fix k resp
  assume k: "int k \<le> MaxJoinRetries" "\<forall>i < k. failed (attempts i) \<and> ctx_Err (attempts i) = None"
    and a: "attempts k = JoinOK resp"
  then have "\<not> retried (attempts k)" "ends (attempts k) = Joined resp" by simp_all
  with join_loop_ends [OF assms _ k(1), of attempts 0 0] k(2)
  show "join_loop attempts MaxJoinRetries 0 0 0 = Some (Joined resp, Suc k, k)"
    by (simp add: retried_iff)
next
  fix k e
  assume k: "int k \<le> MaxJoinRetries" "\<forall>i < k. failed (attempts i) \<and> ctx_Err (attempts i) = None"
    and a: "failed (attempts k) \<and> ctx_Err (attempts k) = Some e"
  then have "\<not> retried (attempts k)" "ends (attempts k) = Cancelled e"
    by (cases "attempts k"; simp)+
  with join_loop_ends [OF assms _ k(1), of attempts 0 0] k(2)
  show "join_loop attempts MaxJoinRetries 0 0 0 = Some (Cancelled e, Suc k, k)"
    by (simp add: retried_iff)
next
  assume "\<forall>i < nat (MaxJoinRetries + 1). failed (attempts i) \<and> ctx_Err (attempts i) = None"
  with join_loop_exhausted [OF assms, of 0 attempts 0]
  show "join_loop attempts MaxJoinRetries 0 0 0 =
      Some (Exhausted, nat (MaxJoinRetries + 1), nat (MaxJoinRetries + 1))"
    by (simp add: retried_iff)
qed

theorem join_loop_bounded_witness:
  "join_loop two_refusals 3 0 0 0 = Some (Joined ''resp'', 3, 2) \<and>
   join_loop deadline 3 0 0 0 = Some (Cancelled (Err ''context deadline exceeded''), 2, 1) \<and>
   join_loop always_refused 3 0 0 0 = Some (Exhausted, 4, 4)"
proof -
  have m: "(3::int) < 2 ^ 63 - 1" by simp
  have 1: "int 2 \<le> 3" "\<forall>i < 2. failed (two_refusals i) \<and> ctx_Err (two_refusals i) = None"
    "two_refusals 2 = JoinOK ''resp''"
    by (simp_all add: two_refusals_def)
  have 2: "int 1 \<le> 3" "\<forall>i < 1. failed (deadline i) \<and> ctx_Err (deadline i) = None"
    "failed (deadline 1) \<and> ctx_Err (deadline 1) = Some (Err ''context deadline exceeded'')"
    by (simp_all add: deadline_def)
  have 3: "\<forall>i < nat (3 + 1). failed (always_refused i) \<and> ctx_Err (always_refused i) = None"
    by (simp add: always_refused_def)
  from join_loop_bounded [OF m, of two_refusals] 1
  have a: "join_loop two_refusals 3 0 0 0 = Some (Joined ''resp'', Suc 2, 2)" by blast
  from join_loop_bounded [OF m, of deadline] 2
  have b: "join_loop deadline 3 0 0 0 = Some (Cancelled (Err ''context deadline exceeded''), Suc 1, 1)"
    by blast
  from join_loop_bounded [OF m, of always_refused] 3
  have c: "join_loop always_refused 3 0 0 0 = Some (Exhausted, nat (3 + 1), nat (3 + 1))"
    by blast
  from a b c show ?thesis by simp
qed

end
